theory Spec2Isabelle
  imports Complex_Main "HOL-Library.AList" "HOL-Library.Sublist" "HOL-Library.Product_Lexorder"
begin

section \<open>Data model: the stores the recommenders read\<close>

text \<open>
  The recommenders of \<^verbatim>\<open>app/services/ml\<close> read three tables through the ORM session:
  ratings, movies (with their genre names) and reviews. A table is the list of its rows
  in storage order; a query without \<^verbatim>\<open>order_by\<close> returns the matching rows in that order.
  Python floats are modelled as real numbers (exact arithmetic), user ids (UUIDs) as
  natural numbers, nullable columns as options.
\<close>

type_synonym uuid = nat

record rating =
  user_id :: uuid
  movie_id :: int
  rating_value :: real

record movie =
  mid :: int
  genres :: "string list"
  overview :: "string option"
  tagline :: "string option"
  vote_average :: "real option"
  vote_count :: int
  popularity :: "real option"
  is_active :: bool

record review =
  review_movie_id :: int
  is_approved :: bool
  content :: "string option"

record db =
  ratings :: "rating list"
  movies :: "movie list"
  reviews :: "review list"

section \<open>Hybrid aggregator: activity-adaptive weights\<close>

text \<open>
  \<^verbatim>\<open>HybridRecommender.get_personal_recommendations\<close>, lines 46-66: the number of rating rows
  of the requesting user selects the three source weights.
\<close>

record weights =
  content_weight :: real
  collaborative_weight :: real
  popularity_weight :: real

definition user_ratings_count :: "db \<Rightarrow> uuid \<Rightarrow> nat" where
  "user_ratings_count d u = length (filter (\<lambda>r. user_id r = u) (ratings d))"

definition activity_weights :: "nat \<Rightarrow> weights" where
  "activity_weights n =
     (if n < 5 then
        \<lparr>content_weight = 0.6, collaborative_weight = 0.1, popularity_weight = 0.3\<rparr>
      else if n < 20 then
        \<lparr>content_weight = 0.5, collaborative_weight = 0.3, popularity_weight = 0.2\<rparr>
      else
        \<lparr>content_weight = 0.3, collaborative_weight = 0.6, popularity_weight = 0.1\<rparr>)"

definition personal_weights :: "db \<Rightarrow> uuid \<Rightarrow> weights" where
  "personal_weights d u = activity_weights (user_ratings_count d u)"

section \<open>Python list and string helpers\<close>

text \<open>
  \<^verbatim>\<open>sorted(xs, key=f, reverse=True)\<close> and \<^verbatim>\<open>xs.sort(key=f, reverse=True)\<close>: a stable
  sort into descending key order (rows with equal keys keep their original order).
\<close>

fun insort_reverse :: "('a \<Rightarrow> 'k::linorder) \<Rightarrow> 'a \<Rightarrow> 'a list \<Rightarrow> 'a list" where
  "insort_reverse key x [] = [x]"
| "insort_reverse key x (y # ys) =
     (if key x < key y then y # insort_reverse key x ys else x # y # ys)"

definition sorted_reverse :: "('a \<Rightarrow> 'k::linorder) \<Rightarrow> 'a list \<Rightarrow> 'a list" where
  "sorted_reverse key xs = foldr (insort_reverse key) xs []"

text \<open>
  \<^verbatim>\<open>str.lower()\<close> on the characters of a byte string: the upper-case ASCII letters move
  to their lower-case forms, every other character stays.
\<close>

definition lower_char :: "char \<Rightarrow> char" where
  "lower_char c =
     (if 65 \<le> (of_char c :: nat) \<and> (of_char c :: nat) \<le> 90
      then char_of ((of_char c :: nat) + 32) else c)"

definition lower :: "string \<Rightarrow> string" where
  "lower s = map lower_char s"

text \<open>\<^verbatim>\<open>x or default\<close> on a nullable float column: \<^verbatim>\<open>None\<close> and \<^verbatim>\<open>0.0\<close> are both falsy.\<close>

definition or_default :: "real option \<Rightarrow> real \<Rightarrow> real" where
  "or_default x dflt = (case x of None \<Rightarrow> dflt | Some v \<Rightarrow> if v = 0 then dflt else v)"

section \<open>Floating-point arithmetic\<close>

text \<open>
  The group scorer compares computed scores with a threshold, so its arithmetic is kept
  as the code has it: every arithmetic operation on Python floats is taken from a record
  of operations. A float is the real number it denotes; comparisons, \<^verbatim>\<open>max\<close> and
  \<^verbatim>\<open>min\<close> are exact. \<open>flit\<close> is the float that a decimal literal denotes and
  \<open>fmean\<close> is \<^verbatim>\<open>numpy.mean\<close> of a list of floats.
\<close>

record float_ops =
  fadd :: "real \<Rightarrow> real \<Rightarrow> real"
  fsub :: "real \<Rightarrow> real \<Rightarrow> real"
  fmul :: "real \<Rightarrow> real \<Rightarrow> real"
  fdiv :: "real \<Rightarrow> real \<Rightarrow> real"
  flit :: "real \<Rightarrow> real"
  fmean :: "real list \<Rightarrow> real"

text \<open>
  IEEE 754 binary64 in the normal range: the result of an operation is the exact result
  rounded to 53 significant bits, ties to the even significand. \<open>binary_exponent\<close>
  finds \<open>e\<close> with \<open>2 ^ e \<le> x < 2 ^ (e + 1)\<close> for a positive \<open>x\<close>; its first argument
  bounds the number of steps and covers the whole range of exponents.
\<close>

fun binary_exponent :: "nat \<Rightarrow> real \<Rightarrow> int \<Rightarrow> int" where
  "binary_exponent n x e =
     (if n = 0 then e
      else if 2 \<le> x then binary_exponent (n - 1) (x / 2) (e + 1)
      else if x < 1 then binary_exponent (n - 1) (x * 2) (e - 1)
      else e)"

definition ulp_of_exponent :: "int \<Rightarrow> real" where
  "ulp_of_exponent e = (if 52 \<le> e then 2 ^ nat (e - 52) else 1 / 2 ^ nat (52 - e))"

definition unit_in_last_place :: "real \<Rightarrow> real" where
  "unit_in_last_place x = ulp_of_exponent (binary_exponent 1100 \<bar>x\<bar> 0)"

definition nearest_even :: "int \<Rightarrow> real \<Rightarrow> int" where
  "nearest_even f r =
     (if r < 1 / 2 then f else if 1 / 2 < r then f + 1 else if even f then f else f + 1)"

definition round_half_even :: "real \<Rightarrow> int" where
  "round_half_even y = nearest_even \<lfloor>y\<rfloor> (y - of_int \<lfloor>y\<rfloor>)"

definition round_to :: "real \<Rightarrow> real \<Rightarrow> real" where
  "round_to u x = of_int (round_half_even (x / u)) * u"

definition round_double :: "real \<Rightarrow> real" where
  "round_double x =
     (if x = 0 then 0
      else if 0 < x then round_to (unit_in_last_place x) x
      else - round_to (unit_in_last_place x) (- x))"

text \<open>
  The operations of the interpreter. The sum inside the mean is taken in list order;
  \<^verbatim>\<open>numpy\<close> groups the additions differently for longer lists.
\<close>

definition double_sum :: "real list \<Rightarrow> real" where
  "double_sum xs = foldl (\<lambda>acc x. round_double (acc + x)) 0 xs"

definition ieee_double :: float_ops where
  "ieee_double =
     \<lparr>fadd = (\<lambda>a b. round_double (a + b)),
      fsub = (\<lambda>a b. round_double (a - b)),
      fmul = (\<lambda>a b. round_double (a * b)),
      fdiv = (\<lambda>a b. round_double (a / b)),
      flit = round_double,
      fmean = (\<lambda>xs. round_double (double_sum xs / real (length xs)))\<rparr>"

text \<open>Exact arithmetic, for comparison with the rounded one.\<close>

definition exact_arithmetic :: float_ops where
  "exact_arithmetic =
     \<lparr>fadd = (+), fsub = (-), fmul = (*), fdiv = (/), flit = (\<lambda>x. x),
      fmean = (\<lambda>xs. sum_list xs / real (length xs))\<rparr>"

section \<open>Mood scorer\<close>

text \<open>The two constant tables of \<^verbatim>\<open>MoodAnalyzer.__init__\<close>, as dictionaries in key order.\<close>

definition mood_genre_mapping :: "(string \<times> string list) list" where
  "mood_genre_mapping =
    [(''happy'', [''Comedy'', ''Family'', ''Animation'', ''Musical'', ''Romance'']),
     (''sad'', [''Drama'', ''Romance'']),
     (''excited'', [''Action'', ''Adventure'', ''Thriller'', ''Science Fiction'']),
     (''romantic'', [''Romance'', ''Drama'']),
     (''adventurous'', [''Adventure'', ''Action'', ''Fantasy'', ''Science Fiction'']),
     (''relaxed'', [''Comedy'', ''Family'', ''Documentary'']),
     (''thoughtful'', [''Drama'', ''Documentary'', ''Mystery'', ''Science Fiction'']),
     (''scared'', [''Horror'', ''Thriller'']),
     (''nostalgic'', [''Drama'', ''Family'']),
     (''energetic'', [''Action'', ''Adventure'', ''Comedy''])]"

definition mood_keywords :: "(string \<times> string list) list" where
  "mood_keywords =
    [(''happy'', [''joy'', ''happiness'', ''cheerful'', ''uplifting'', ''positive'', ''fun'',
                 ''lighthearted'']),
     (''sad'', [''emotional'', ''touching'', ''tearjerker'', ''melancholy'', ''tragic'',
               ''heartbreaking'']),
     (''excited'', [''thrilling'', ''intense'', ''adrenaline'', ''fast-paced'', ''explosive'',
                   ''action-packed'']),
     (''romantic'', [''love story'', ''romantic'', ''passion'', ''relationship'', ''intimate'']),
     (''adventurous'', [''journey'', ''quest'', ''exploration'', ''epic'', ''adventure'']),
     (''relaxed'', [''calm'', ''peaceful'', ''gentle'', ''easy-going'', ''comfort'']),
     (''thoughtful'', [''philosophical'', ''deep'', ''complex'', ''intellectual'',
                      ''thought-provoking'']),
     (''scared'', [''scary'', ''frightening'', ''terrifying'', ''suspenseful'', ''creepy'']),
     (''nostalgic'', [''classic'', ''vintage'', ''memories'', ''past'', ''childhood'']),
     (''energetic'', [''dynamic'', ''vibrant'', ''energetic'', ''lively'', ''spirited''])]"

text \<open>\<^verbatim>\<open>d.get(k, [])\<close> on such a table.\<close>

definition get_or_empty :: "(string \<times> string list) list \<Rightarrow> string \<Rightarrow> string list" where
  "get_or_empty table k = (case map_of table k of None \<Rightarrow> [] | Some v \<Rightarrow> v)"

text \<open>
  \<^verbatim>\<open>_get_review_sentiment_score\<close>, lines 170-209. The polarity that TextBlob assigns to a
  review text is a parameter \<open>polarity\<close>. The loop carries \<^verbatim>\<open>mood_score\<close> and
  \<^verbatim>\<open>review_count\<close>; a review without content is skipped and not counted.
\<close>

definition sentiment_term :: "string \<Rightarrow> real \<Rightarrow> real" where
  "sentiment_term mood sentiment_polarity =
     (if mood \<in> set [''happy'', ''excited'', ''energetic''] then max 0 sentiment_polarity
      else if mood \<in> set [''sad'', ''thoughtful''] then \<bar>sentiment_polarity\<bar>
      else if mood \<in> set [''scared''] then
        (if sentiment_polarity < 0 then max 0 (- sentiment_polarity) else 0)
      else \<bar>sentiment_polarity\<bar> * 0.5)"

fun sentiment_loop ::
  "(string \<Rightarrow> real) \<Rightarrow> string \<Rightarrow> review list \<Rightarrow> real \<times> nat \<Rightarrow> real \<times> nat" where
  "sentiment_loop polarity mood [] acc = acc"
| "sentiment_loop polarity mood (r # rs) (mood_score, review_count) =
     (case content r of
        None \<Rightarrow> sentiment_loop polarity mood rs (mood_score, review_count)
      | Some c \<Rightarrow>
          if c = [] then sentiment_loop polarity mood rs (mood_score, review_count)
          else sentiment_loop polarity mood rs
                 (mood_score + sentiment_term mood (polarity c), review_count + 1))"

definition sampled_reviews :: "db \<Rightarrow> int \<Rightarrow> review list" where
  "sampled_reviews d m_id =
     take 10 (filter (\<lambda>r. review_movie_id r = m_id \<and> is_approved r) (reviews d))"

definition get_review_sentiment_score ::
  "(string \<Rightarrow> real) \<Rightarrow> db \<Rightarrow> int \<Rightarrow> string \<Rightarrow> real" where
  "get_review_sentiment_score polarity d m_id mood =
     (let rs = sampled_reviews d m_id in
      if rs = [] then 0
      else (case sentiment_loop polarity mood rs (0, 0) of
              (mood_score, review_count) \<Rightarrow>
                if review_count > 0 then mood_score / real review_count else 0))"

text \<open>
  \<^verbatim>\<open>_calculate_mood_score\<close>, lines 125-168. \<^verbatim>\<open>math.log\<close> raises on a non-positive
  argument; the handler of the function then returns 0.0 for the whole score.
\<close>

definition text_content :: "movie \<Rightarrow> string" where
  "text_content m =
     (case overview m of None \<Rightarrow> [] | Some ov \<Rightarrow> if ov = [] then [] else lower ov) @
     (case tagline m of None \<Rightarrow> [] | Some tg \<Rightarrow> if tg = [] then [] else '' '' @ lower tg)"

definition calculate_mood_score ::
  "(string \<Rightarrow> real) \<Rightarrow> db \<Rightarrow> movie \<Rightarrow> string \<Rightarrow> real" where
  "calculate_mood_score polarity d m mood =
     (let genre_part =
            (if genres m = [] then 0
             else real (card (set (genres m) \<inter> set (get_or_empty mood_genre_mapping mood)))
                    * 0.3);
          keyword_part =
            (if text_content m = [] then 0
             else real (length (filter (\<lambda>keyword. sublist keyword (text_content m))
                                  (get_or_empty mood_keywords mood))) * 0.2);
          review_part = get_review_sentiment_score polarity d (mid m) mood * 0.3;
          rating_part =
            (case vote_average m of None \<Rightarrow> 0
             | Some va \<Rightarrow> if va = 0 then 0 else (va / 10.0) * 0.1)
      in case popularity m of
           None \<Rightarrow> genre_part + keyword_part + review_part + rating_part
         | Some pop \<Rightarrow>
             if pop = 0 then genre_part + keyword_part + review_part + rating_part
             else if pop + 1 \<le> 0 then 0
             else genre_part + keyword_part + review_part + rating_part
                    + min (ln (pop + 1) / 10.0) 0.1)"

text \<open>
  \<^verbatim>\<open>get_mood_recommendations\<close>, lines 65-123. The join with the genre table keeps a
  movie that has at least one genre among the target genres. An unknown mood returns the
  empty list. The user id is a UUID object, which is always truthy, so the rated movies
  are always fetched. \<^verbatim>\<open>limit\<close> is a natural number (the API bounds it from below by 1).
\<close>

definition user_rated_movies :: "db \<Rightarrow> uuid \<Rightarrow> int set" where
  "user_rated_movies d u = set (map movie_id (filter (\<lambda>r. user_id r = u) (ratings d)))"

definition mood_candidates :: "db \<Rightarrow> uuid \<Rightarrow> string list \<Rightarrow> movie list" where
  "mood_candidates d u target_genres =
     filter (\<lambda>m. (\<exists>g \<in> set (genres m). g \<in> set target_genres) \<and> is_active m \<and>
                 vote_count m \<ge> 20 \<and> mid m \<notin> user_rated_movies d u) (movies d)"

definition get_mood_recommendations ::
  "(string \<Rightarrow> real) \<Rightarrow> db \<Rightarrow> uuid \<Rightarrow> string \<Rightarrow> nat \<Rightarrow> movie list" where
  "get_mood_recommendations polarity d u mood limit =
     (case map_of mood_genre_mapping (lower mood) of
        None \<Rightarrow> []
      | Some target_genres \<Rightarrow>
          (let ms = mood_candidates d u target_genres in
           if ms = [] then []
           else
             (let scored_movies =
                    map (\<lambda>m. (m, calculate_mood_score polarity d m (lower mood))) ms
              in map fst
                   (take limit
                      (sorted_reverse (\<lambda>x. (snd x, or_default (popularity (fst x)) 0))
                         scored_movies)))))"

text \<open>
  The endpoint \<^verbatim>\<open>GET /mood/{mood}\<close> (\<^verbatim>\<open>api/v1/recommendations.py\<close>, lines 62-115):
  validation against the list of valid moods, then the cache, then the scorer with the
  lower-cased mood. The cache is a parameter \<open>cache_get\<close> from the mood as given, the user
  and the limit (the components of the cache key) to the cached list; an absent or empty
  entry recomputes.
\<close>

datatype http_error = HTTP_400_BAD_REQUEST | HTTP_500_INTERNAL_SERVER_ERROR

definition valid_moods :: "string list" where
  "valid_moods = [''happy'', ''sad'', ''excited'', ''romantic'', ''adventurous'',
                  ''relaxed'', ''thoughtful'', ''scared'', ''nostalgic'', ''energetic'']"

definition get_mood_based_recommendations ::
  "(string \<Rightarrow> uuid \<Rightarrow> nat \<Rightarrow> movie list option) \<Rightarrow> (string \<Rightarrow> real) \<Rightarrow> db \<Rightarrow> uuid \<Rightarrow>
   string \<Rightarrow> nat \<Rightarrow> http_error + movie list" where
  "get_mood_based_recommendations cache_get polarity d current_user mood limit =
     (if lower mood \<notin> set valid_moods then Inl HTTP_400_BAD_REQUEST
      else case cache_get mood current_user limit of
             Some (c # cs) \<Rightarrow> Inr (c # cs)
           | _ \<Rightarrow> Inr (get_mood_recommendations polarity d current_user (lower mood) limit))"

section \<open>Group consensus scorer\<close>

text \<open>
  \<^verbatim>\<open>{rating.movie_id: rating.rating for rating in user_ratings}\<close> (line 66): the rating
  dictionary of one user, in insertion order; a later row for the same movie replaces
  the value.
\<close>

definition user_rating_dict :: "db \<Rightarrow> uuid \<Rightarrow> (int \<times> real) list" where
  "user_rating_dict d u =
     fold (\<lambda>r acc. AList.update (movie_id r) (rating_value r) acc)
       (filter (\<lambda>r. user_id r = u) (ratings d)) []"

text \<open>
  \<^verbatim>\<open>_get_user_genre_preferences\<close>, lines 247-286. The dictionaries \<^verbatim>\<open>genre_scores\<close> and
  \<^verbatim>\<open>genre_counts\<close> always have the same keys; they are kept as one dictionary from the
  genre name to the pair (score, count).
\<close>

fun add_genres ::
  "real \<Rightarrow> string list \<Rightarrow> (string \<times> real \<times> nat) list \<Rightarrow> (string \<times> real \<times> nat) list" where
  "add_genres r [] acc = acc"
| "add_genres r (g # gs) acc =
     add_genres r gs
       (case map_of acc g of
          None \<Rightarrow> AList.update g (0 + r, 0 + 1) acc
        | Some (total_score, n) \<Rightarrow> AList.update g (total_score + r, n + 1) acc)"

fun genre_totals ::
  "(int \<times> real) list \<Rightarrow> movie list \<Rightarrow> (string \<times> real \<times> nat) list \<Rightarrow>
   (string \<times> real \<times> nat) list" where
  "genre_totals user_ratings [] acc = acc"
| "genre_totals user_ratings (m # ms) acc =
     (case map_of user_ratings (mid m) of
        None \<Rightarrow> genre_totals user_ratings ms acc
      | Some r \<Rightarrow> genre_totals user_ratings ms (add_genres r (genres m) acc))"

definition get_user_genre_preferences :: "db \<Rightarrow> (int \<times> real) list \<Rightarrow> (string \<times> real) list" where
  "get_user_genre_preferences d user_ratings =
     (if user_ratings = [] then []
      else
        map (\<lambda>(g, total_score, n). (g, total_score / real n))
          (filter (\<lambda>(g, total_score, n). n \<ge> 2)
             (genre_totals user_ratings
                (filter (\<lambda>m. mid m \<in> fst ` set user_ratings) (movies d)) [])))"

text \<open>
  \<^verbatim>\<open>_find_consensus_candidates\<close>, lines 104-160. The dictionary of preferences is keyed by
  user, so a user listed twice is visited once; \<^verbatim>\<open>min_support\<close> is computed from the
  length of the list of ids. PostgreSQL puts NULL first in a descending order; the limit
  of 200 applies to the rows of the join (one row per matching genre of a movie), and the
  ORM then keeps the first occurrence of each movie.
\<close>

definition dict_keys :: "'a list \<Rightarrow> 'a list" where
  "dict_keys xs = rev (remdups (rev xs))"

fun support_genres :: "(string \<times> real) list \<Rightarrow> (string \<times> nat) list \<Rightarrow> (string \<times> nat) list" where
  "support_genres [] genre_support = genre_support"
| "support_genres ((genre, avg_rating) # prefs) genre_support =
     support_genres prefs
       (if avg_rating \<ge> 3.5 then
          (case map_of genre_support genre of
             None \<Rightarrow> AList.update genre (0 + 1) genre_support
           | Some s \<Rightarrow> AList.update genre (s + 1) genre_support)
        else genre_support)"

definition genre_support :: "db \<Rightarrow> uuid list \<Rightarrow> (string \<times> nat) list" where
  "genre_support d user_ids =
     fold (\<lambda>u acc. support_genres (get_user_genre_preferences d (user_rating_dict d u)) acc)
       (dict_keys user_ids) []"

definition min_support :: "uuid list \<Rightarrow> nat" where
  "min_support user_ids = length user_ids div 2 + 1"

definition common_genres :: "db \<Rightarrow> uuid list \<Rightarrow> string list" where
  "common_genres d user_ids =
     map fst (filter (\<lambda>(genre, support). support \<ge> min_support user_ids)
                (genre_support d user_ids))"

definition order_by_popularity_desc :: "movie list \<Rightarrow> movie list" where
  "order_by_popularity_desc ms =
     filter (\<lambda>m. popularity m = None) ms @
     sorted_reverse (\<lambda>m. case popularity m of None \<Rightarrow> 0 | Some p \<Rightarrow> p)
       (filter (\<lambda>m. popularity m \<noteq> None) ms)"

definition find_consensus_candidates :: "db \<Rightarrow> uuid list \<Rightarrow> int set \<Rightarrow> movie list" where
  "find_consensus_candidates d user_ids exclude_movies =
     (let common = common_genres d user_ids in
      if common \<noteq> [] then
        dict_keys
          (take 200
             (order_by_popularity_desc
                (concat
                   (map (\<lambda>m. map (\<lambda>g. m) (filter (\<lambda>g. g \<in> set common) (genres m)))
                      (filter (\<lambda>m. is_active m \<and> vote_count m \<ge> 50 \<and>
                                   mid m \<notin> exclude_movies) (movies d))))))
      else
        take 200
          (order_by_popularity_desc
             (filter (\<lambda>m. is_active m \<and> vote_count m \<ge> 100 \<and> mid m \<notin> exclude_movies)
                (movies d))))"

text \<open>
  \<^verbatim>\<open>_predict_user_satisfaction\<close>, lines 197-245, with the call of
  \<^verbatim>\<open>_get_user_genre_preferences\<close> (lines 247-286) that gives \<^verbatim>\<open>user_genre_prefs\<close>. The
  arithmetic is that of \<open>F\<close>: the genre sums start from the integer 0 and add the ratings,
  the average is the rounded quotient.
\<close>

fun add_genre_scores ::
  "float_ops \<Rightarrow> real \<Rightarrow> string list \<Rightarrow> (string \<times> real \<times> nat) list \<Rightarrow>
   (string \<times> real \<times> nat) list" where
  "add_genre_scores F r [] acc = acc"
| "add_genre_scores F r (g # gs) acc =
     add_genre_scores F r gs
       (case map_of acc g of
          None \<Rightarrow> AList.update g (fadd F 0 r, 0 + 1) acc
        | Some (total_score, n) \<Rightarrow> AList.update g (fadd F total_score r, n + 1) acc)"

fun genre_scores ::
  "float_ops \<Rightarrow> (int \<times> real) list \<Rightarrow> movie list \<Rightarrow> (string \<times> real \<times> nat) list \<Rightarrow>
   (string \<times> real \<times> nat) list" where
  "genre_scores F user_ratings [] acc = acc"
| "genre_scores F user_ratings (m # ms) acc =
     (case map_of user_ratings (mid m) of
        None \<Rightarrow> genre_scores F user_ratings ms acc
      | Some r \<Rightarrow> genre_scores F user_ratings ms (add_genre_scores F r (genres m) acc))"

definition user_genre_prefs ::
  "float_ops \<Rightarrow> db \<Rightarrow> (int \<times> real) list \<Rightarrow> (string \<times> real) list" where
  "user_genre_prefs F d user_ratings =
     (if user_ratings = [] then []
      else
        map (\<lambda>(g, total_score, n). (g, fdiv F total_score (real n)))
          (filter (\<lambda>(g, total_score, n). n \<ge> 2)
             (genre_scores F user_ratings
                (filter (\<lambda>m. mid m \<in> fst ` set user_ratings) (movies d)) [])))"

fun genre_satisfaction_loop ::
  "float_ops \<Rightarrow> (string \<times> real) list \<Rightarrow> string list \<Rightarrow> real \<times> nat \<Rightarrow> real \<times> nat" where
  "genre_satisfaction_loop F prefs [] acc = acc"
| "genre_satisfaction_loop F prefs (g # gs) (genre_satisfaction, genre_count) =
     (case map_of prefs g of
        None \<Rightarrow> genre_satisfaction_loop F prefs gs (genre_satisfaction, genre_count)
      | Some avg \<Rightarrow>
          genre_satisfaction_loop F prefs gs
            (fadd F genre_satisfaction (max 0 (fdiv F (fsub F avg 1) 4.0)),
             genre_count + 1))"

definition predict_user_satisfaction ::
  "float_ops \<Rightarrow> db \<Rightarrow> movie \<Rightarrow> (int \<times> real) list \<Rightarrow> real" where
  "predict_user_satisfaction F d m user_ratings =
     (if user_ratings = [] then fdiv F (or_default (vote_average m) 5.0) 10.0
      else
        (let prefs = user_genre_prefs F d user_ratings in
         if prefs = [] then 0.5
         else
           (case genre_satisfaction_loop F prefs (genres m) (0, 0) of
              (acc_satisfaction, genre_count) \<Rightarrow>
                (let genre_satisfaction =
                       (if genre_count > 0 then fdiv F acc_satisfaction (real genre_count)
                        else acc_satisfaction);
                     quality_boost =
                       (case vote_average m of None \<Rightarrow> 0
                        | Some va \<Rightarrow> if va \<noteq> 0 \<and> va \<ge> 7.0 then flit F 0.1 else 0);
                     quality_penalty =
                       (case vote_average m of None \<Rightarrow> 0
                        | Some va \<Rightarrow> if va \<noteq> 0 \<and> va < 5.0 then flit F 0.2 else 0)
                 in max 0
                      (min 1
                         (fsub F (fadd F genre_satisfaction quality_boost)
                            quality_penalty))))))"

text \<open>\<^verbatim>\<open>_calculate_group_satisfaction\<close>, lines 162-195.\<close>

definition individual_satisfactions ::
  "float_ops \<Rightarrow> db \<Rightarrow> movie \<Rightarrow> uuid list \<Rightarrow> real list" where
  "individual_satisfactions F d m user_ids =
     map (\<lambda>u. predict_user_satisfaction F d m (user_rating_dict d u)) user_ids"

definition calculate_group_satisfaction ::
  "float_ops \<Rightarrow> db \<Rightarrow> movie \<Rightarrow> uuid list \<Rightarrow> real" where
  "calculate_group_satisfaction F d m user_ids =
     (let sats = individual_satisfactions F d m user_ids in
      if sats = [] then 0
      else
        (let mean_satisfaction = fmean F sats;
             min_satisfaction = Min (set sats);
             group_satisfaction =
               fadd F (fmul F (flit F 0.6) mean_satisfaction)
                 (fmul F (flit F 0.4) min_satisfaction)
         in max 0 (min 1 group_satisfaction)))"

text \<open>
  \<^verbatim>\<open>get_group_recommendations\<close>, lines 33-102. \<^verbatim>\<open>uuid.UUID(user_id)\<close> is a parameter
  \<open>parse_uuid\<close> that gives \<open>None\<close> where the constructor raises \<^verbatim>\<open>ValueError\<close>; such an
  id is dropped. Fewer than two ids, before or after parsing, return the empty list. In
  the selection of the candidates an average is only compared with 3.5; for ratings in
  half steps the rounded average passes that test exactly when the exact one does.
\<close>

definition all_rated_movies :: "db \<Rightarrow> uuid list \<Rightarrow> int set" where
  "all_rated_movies d user_ids = (\<Union>u \<in> set user_ids. fst ` set (user_rating_dict d u))"

definition get_group_recommendations ::
  "float_ops \<Rightarrow> (string \<Rightarrow> uuid option) \<Rightarrow> db \<Rightarrow> string list \<Rightarrow> nat \<Rightarrow> real \<Rightarrow>
   movie list" where
  "get_group_recommendations F parse_uuid d user_ids limit min_satisfaction =
     (if length user_ids < 2 then []
      else
        (let uuid_user_ids = List.map_filter parse_uuid user_ids in
         if length uuid_user_ids < 2 then []
         else
           (let candidate_movies =
                  find_consensus_candidates d uuid_user_ids
                    (all_rated_movies d uuid_user_ids);
                scored_movies =
                  filter (\<lambda>(m, satisfaction_score). satisfaction_score \<ge> min_satisfaction)
                    (map (\<lambda>m. (m, calculate_group_satisfaction F d m uuid_user_ids))
                       candidate_movies)
            in map fst (take limit (sorted_reverse snd scored_movies)))))"

section \<open>Popularity fallback\<close>

text \<open>
  \<^verbatim>\<open>_get_popular_movies\<close> (the same in the content-based, collaborative and mood
  classes): active movies with at least 100 votes, most popular first. It takes no user.
\<close>

definition get_popular_movies :: "db \<Rightarrow> nat \<Rightarrow> movie list" where
  "get_popular_movies d limit =
     take limit
       (order_by_popularity_desc (filter (\<lambda>m. is_active m \<and> vote_count m \<ge> 100) (movies d)))"

section \<open>Content similarity scorer\<close>

text \<open>
  The loaded model of \<^verbatim>\<open>ContentBasedRecommender\<close>: the similarity matrix as a list of
  rows and the dictionary \<^verbatim>\<open>movie_indices\<close> from movie id to row index. The model is
  absent (\<open>None\<close>) when no matrix could be loaded or computed; every access then
  raises, and \<^verbatim>\<open>_get_similar_movies_internal\<close> returns the empty list from its handler.
\<close>

record content_model =
  similarity_matrix :: "real list list"
  movie_indices :: "(int \<times> nat) list"

text \<open>
  \<^verbatim>\<open>list(d.keys())[list(d.values()).index(idx)]\<close>: the first key whose value is
  \<open>idx\<close>; \<^verbatim>\<open>ValueError\<close> (here \<open>None\<close>) when there is none.
\<close>

definition reverse_index :: "(int \<times> nat) list \<Rightarrow> nat \<Rightarrow> int option" where
  "reverse_index mi idx = map_of (map (\<lambda>(k, v). (v, k)) mi) idx"

text \<open>
  \<^verbatim>\<open>_get_similar_movies_internal\<close>, lines 128-178. The loop stops at \<open>limit\<close> results,
  skips excluded ids and ids without a movie row; a failed reverse lookup raises, and the
  handler returns the empty list.
\<close>

fun similar_loop ::
  "(int \<times> nat) list \<Rightarrow> db \<Rightarrow> nat \<Rightarrow> int set \<Rightarrow> (nat \<times> real) list \<Rightarrow> (movie \<times> real) list \<Rightarrow>
   (movie \<times> real) list option" where
  "similar_loop mi d limit exclude_ids [] similar_movies = Some similar_movies"
| "similar_loop mi d limit exclude_ids ((idx, score) # rest) similar_movies =
     (if length similar_movies \<ge> limit then Some similar_movies
      else
        (case reverse_index mi idx of
           None \<Rightarrow> None
         | Some similar_movie_id \<Rightarrow>
             if similar_movie_id \<in> exclude_ids
             then similar_loop mi d limit exclude_ids rest similar_movies
             else
               (case find (\<lambda>m. mid m = similar_movie_id) (movies d) of
                  None \<Rightarrow> similar_loop mi d limit exclude_ids rest similar_movies
                | Some m \<Rightarrow>
                    similar_loop mi d limit exclude_ids rest (similar_movies @ [(m, score)]))))"

definition get_similar_movies_internal ::
  "content_model option \<Rightarrow> db \<Rightarrow> int \<Rightarrow> nat \<Rightarrow> int set \<Rightarrow> (movie \<times> real) list" where
  "get_similar_movies_internal cm d m_id limit exclude_ids =
     (case cm of
        None \<Rightarrow> []
      | Some model \<Rightarrow>
          (case map_of (movie_indices model) m_id of
             None \<Rightarrow> []
           | Some movie_idx \<Rightarrow>
               if movie_idx \<ge> length (similarity_matrix model) then []
               else
                 (let sim_scores =
                        sorted_reverse snd
                          (filter (\<lambda>score. fst score \<noteq> movie_idx)
                             (enumerate 0 (similarity_matrix model ! movie_idx)))
                  in case similar_loop (movie_indices model) d limit exclude_ids
                            sim_scores [] of
                       None \<Rightarrow> []
                     | Some similar_movies \<Rightarrow> similar_movies)))"

text \<open>
  \<^verbatim>\<open>ContentBasedRecommender.get_recommendations\<close>, lines 35-98. The dictionary
  \<^verbatim>\<open>candidate_movies\<close> maps a movie id to the movie, the accumulated score and the
  count, in insertion order. The ids to exclude are those of the rows fetched by the
  first query, which keeps only ratings of at least 4.0.
\<close>

definition high_ratings :: "db \<Rightarrow> uuid \<Rightarrow> rating list" where
  "high_ratings d u = filter (\<lambda>r. user_id r = u \<and> rating_value r \<ge> 4.0) (ratings d)"

definition rated_movie_ids :: "db \<Rightarrow> uuid \<Rightarrow> bool \<Rightarrow> int set" where
  "rated_movie_ids d u exclude_watched =
     (if exclude_watched then movie_id ` set (high_ratings d u) else {})"

fun add_similar ::
  "real \<Rightarrow> (movie \<times> real) list \<Rightarrow> (int \<times> movie \<times> real \<times> nat) list \<Rightarrow>
   (int \<times> movie \<times> real \<times> nat) list" where
  "add_similar weight [] candidate_movies = candidate_movies"
| "add_similar weight ((m, similarity_score) # rest) candidate_movies =
     add_similar weight rest
       (case map_of candidate_movies (mid m) of
          None \<Rightarrow>
            AList.update (mid m) (m, 0.0 + similarity_score * weight, 0 + 1) candidate_movies
        | Some (m0, score, n) \<Rightarrow>
            AList.update (mid m) (m0, score + similarity_score * weight, n + 1)
              candidate_movies)"

fun candidate_loop ::
  "content_model option \<Rightarrow> db \<Rightarrow> int set \<Rightarrow> rating list \<Rightarrow>
   (int \<times> movie \<times> real \<times> nat) list \<Rightarrow> (int \<times> movie \<times> real \<times> nat) list" where
  "candidate_loop cm d exclude_ids [] candidate_movies = candidate_movies"
| "candidate_loop cm d exclude_ids (r # rs) candidate_movies =
     candidate_loop cm d exclude_ids rs
       (add_similar (rating_value r / 5.0)
          (get_similar_movies_internal cm d (movie_id r) 20 exclude_ids) candidate_movies)"

definition content_candidates ::
  "content_model option \<Rightarrow> db \<Rightarrow> uuid \<Rightarrow> bool \<Rightarrow> (int \<times> movie \<times> real \<times> nat) list" where
  "content_candidates cm d u exclude_watched =
     candidate_loop cm d (rated_movie_ids d u exclude_watched) (high_ratings d u) []"

definition average_score :: "int \<times> movie \<times> real \<times> nat \<Rightarrow> real" where
  "average_score x = (case x of (c, m, score, n) \<Rightarrow> score / real n)"

definition sorted_candidates ::
  "content_model option \<Rightarrow> db \<Rightarrow> uuid \<Rightarrow> bool \<Rightarrow> (int \<times> movie \<times> real \<times> nat) list" where
  "sorted_candidates cm d u exclude_watched =
     sorted_reverse average_score (content_candidates cm d u exclude_watched)"

definition content_get_recommendations ::
  "content_model option \<Rightarrow> db \<Rightarrow> uuid \<Rightarrow> nat \<Rightarrow> bool \<Rightarrow> movie list" where
  "content_get_recommendations cm d u limit exclude_watched =
     (if high_ratings d u = [] then get_popular_movies d limit
      else map (\<lambda>x. fst (snd x)) (take limit (sorted_candidates cm d u exclude_watched)))"

section \<open>Collaborative scorer\<close>

text \<open>
  The loaded model of \<^verbatim>\<open>CollaborativeRecommender\<close>: the user-movie matrix as a list of
  rows, the user similarity matrix (absent after loading from the pickle file, which does
  not store it), the index of each user (the key \<^verbatim>\<open>str(user_id)\<close> is written as the user
  id) and the movie id of each column. The whole model is absent (\<open>None\<close>) when nothing
  could be loaded or computed.
\<close>

record collab_model =
  user_movie_matrix :: "real list list"
  user_similarity_matrix :: "real list list option"
  user_index_map :: "(uuid \<times> nat) list"
  reverse_movie_map :: "(nat \<times> int) list"

text \<open>
  \<^verbatim>\<open>np.argsort\<close>: the indices in ascending order of their values (among equal values
  the order of the library's sort; here the stable one).
\<close>

definition argsort :: "real list \<Rightarrow> nat list" where
  "argsort xs = sort_key (\<lambda>i. xs ! i) [0..<length xs]"

text \<open>\<^verbatim>\<open>_find_similar_users\<close>, lines 285-308.\<close>

definition find_similar_users :: "collab_model \<Rightarrow> nat \<Rightarrow> nat \<Rightarrow> (nat \<times> real) list" where
  "find_similar_users model user_idx limit =
     (case user_similarity_matrix model of
        None \<Rightarrow> []
      | Some sim \<Rightarrow>
          if user_idx \<ge> length sim then []
          else
            (let user_similarities = sim ! user_idx;
                 similar_user_indices = take limit (drop 1 (rev (argsort user_similarities)))
             in map (\<lambda>idx. (idx, user_similarities ! idx))
                  (filter (\<lambda>idx. user_similarities ! idx > 0.1) similar_user_indices)))"

text \<open>
  \<^verbatim>\<open>CollaborativeRecommender.get_recommendations\<close>, lines 39-100. The inner loop visits
  the columns of a similar user's row; the outer loop visits the similar users. An index
  outside the matrix raises, and the handler falls back to the popular movies. The
  parameter \<^verbatim>\<open>exclude_watched\<close> is not read.
\<close>

fun neighbour_movies ::
  "(nat \<times> int) list \<Rightarrow> nat set \<Rightarrow> real \<Rightarrow> (nat \<times> real) list \<Rightarrow> (int \<times> real) list \<Rightarrow>
   (int \<times> real) list" where
  "neighbour_movies rmm rated_movies similarity_score [] recommendations = recommendations"
| "neighbour_movies rmm rated_movies similarity_score ((movie_idx, r) # rest) recommendations =
     neighbour_movies rmm rated_movies similarity_score rest
       (if r \<ge> 4.0 \<and> movie_idx \<notin> rated_movies then
          (case map_of rmm movie_idx of
             None \<Rightarrow> recommendations
           | Some m_id \<Rightarrow>
               if m_id = 0 then recommendations
               else
                 AList.update m_id
                   ((case map_of recommendations m_id of None \<Rightarrow> 0 | Some s \<Rightarrow> s)
                      + similarity_score * (r / 5.0))
                   recommendations)
        else recommendations)"

fun neighbour_loop ::
  "collab_model \<Rightarrow> nat set \<Rightarrow> (nat \<times> real) list \<Rightarrow> (int \<times> real) list \<Rightarrow>
   (int \<times> real) list option" where
  "neighbour_loop model rated_movies [] recommendations = Some recommendations"
| "neighbour_loop model rated_movies ((similar_user_idx, similarity_score) # rest)
     recommendations =
     (if similar_user_idx \<ge> length (user_movie_matrix model) then None
      else
        neighbour_loop model rated_movies rest
          (neighbour_movies (reverse_movie_map model) rated_movies similarity_score
             (enumerate 0 (user_movie_matrix model ! similar_user_idx)) recommendations))"

definition rated_columns :: "real list \<Rightarrow> nat set" where
  "rated_columns user_ratings =
     set (filter (\<lambda>i. user_ratings ! i > 0) [0..<length user_ratings])"

definition neighbour_recommendations ::
  "collab_model \<Rightarrow> db \<Rightarrow> nat \<Rightarrow> nat \<Rightarrow> movie list option" where
  "neighbour_recommendations model d user_idx limit =
     (if user_idx \<ge> length (user_movie_matrix model) then None
      else
        (let user_ratings = user_movie_matrix model ! user_idx;
             similar_users = find_similar_users model user_idx 50
         in case neighbour_loop model (rated_columns user_ratings) (take 50 similar_users) [] of
              None \<Rightarrow> None
            | Some recommendations \<Rightarrow>
                Some (List.map_filter (\<lambda>x. find (\<lambda>m. mid m = fst x) (movies d))
                        (take limit (sorted_reverse snd recommendations)))))"

definition collaborative_get_recommendations ::
  "collab_model option \<Rightarrow> db \<Rightarrow> uuid \<Rightarrow> nat \<Rightarrow> bool \<Rightarrow> movie list" where
  "collaborative_get_recommendations cm d u limit exclude_watched =
     (case cm of
        None \<Rightarrow> get_popular_movies d limit
      | Some model \<Rightarrow>
          (case map_of (user_index_map model) u of
             None \<Rightarrow> get_popular_movies d limit
           | Some user_idx \<Rightarrow>
               (case neighbour_recommendations model d user_idx limit of
                  None \<Rightarrow> get_popular_movies d limit
                | Some movie_schemas \<Rightarrow> movie_schemas)))"

section \<open>Similarity matrices\<close>

text \<open>
  \<^verbatim>\<open>sklearn.metrics.pairwise.cosine_similarity\<close> of a matrix with itself, by its
  documented definition: every row is divided by its Euclidean norm (a zero row is left
  as it is), and the entry \<open>(i, j)\<close> is the dot product of the normalised rows \<open>i\<close>
  and \<open>j\<close>.
\<close>

definition dot :: "real list \<Rightarrow> real list \<Rightarrow> real" where
  "dot x y = sum_list (map2 (*) x y)"

definition normalize_row :: "real list \<Rightarrow> real list" where
  "normalize_row x = (if sqrt (dot x x) = 0 then x else map (\<lambda>v. v / sqrt (dot x x)) x)"

definition cosine_similarity :: "real list list \<Rightarrow> real list list" where
  "cosine_similarity X =
     (let X_normalized = map normalize_row X
      in map (\<lambda>x. map (\<lambda>y. dot x y) X_normalized) X_normalized)"

text \<open>
  \<^verbatim>\<open>_compute_similarity_matrix\<close>, lines 252-258: the TF-IDF matrix and the scaled numeric
  features (one row per movie each) are parameters; the two cosine matrices are combined
  entry by entry.
\<close>

definition compute_similarity_matrix :: "real list list \<Rightarrow> real list list \<Rightarrow> real list list" where
  "compute_similarity_matrix tfidf_matrix scaled_numerical =
     (let text_similarity = cosine_similarity tfidf_matrix;
          numerical_similarity = cosine_similarity scaled_numerical
      in map2 (\<lambda>t_row n_row. map2 (\<lambda>t n. 0.7 * t + 0.3 * n) t_row n_row)
           text_similarity numerical_similarity)"

text \<open>\<^verbatim>\<open>_compute_user_item_matrix\<close>, line 265.\<close>

definition compute_user_similarity_matrix :: "real list list \<Rightarrow> real list list" where
  "compute_user_similarity_matrix user_movie_mat = cosine_similarity user_movie_mat"

section \<open>Reference notions and sample data\<close>

text \<open>The texts of the reviews that the sentiment loop does not skip.\<close>

definition reviews_with_content :: "review list \<Rightarrow> string list" where
  "reviews_with_content rs =
     concat (map (\<lambda>r. case content r of None \<Rightarrow> [] | Some c \<Rightarrow> if c = [] then [] else [c])
               rs)"

text \<open>A small catalogue: one comedy, one reviewed horror film, no ratings.\<close>

definition example_comedy :: movie where
  "example_comedy =
     \<lparr>mid = 1, genres = [''Comedy''], overview = None, tagline = None,
      vote_average = Some 8, vote_count = 150, popularity = None, is_active = True\<rparr>"

definition example_horror :: movie where
  "example_horror =
     \<lparr>mid = 2, genres = [''Horror''], overview = None, tagline = None,
      vote_average = Some 7, vote_count = 120, popularity = None, is_active = True\<rparr>"

definition example_db :: db where
  "example_db =
     \<lparr>ratings = [],
      movies = [example_comedy, example_horror],
      reviews = [\<lparr>review_movie_id = 2, is_approved = True, content = Some ''a delight''\<rparr>]\<rparr>"

definition empty_cache :: "string \<Rightarrow> uuid \<Rightarrow> nat \<Rightarrow> movie list option" where
  "empty_cache mood u limit = None"

definition positive_polarity :: "string \<Rightarrow> real" where
  "positive_polarity txt = 0.8"

definition example_parse_uuid :: "string \<Rightarrow> uuid option" where
  "example_parse_uuid s =
     (if s = ''u1'' then Some 1 else if s = ''u2'' then Some 2
      else if s = ''u3'' then Some 3 else None)"

text \<open>
  The ratings that count toward a user's average in a genre: one entry for each rated
  movie and each occurrence of the genre among that movie's genres.
\<close>

definition genre_ratings :: "db \<Rightarrow> (int \<times> real) list \<Rightarrow> string \<Rightarrow> real list" where
  "genre_ratings d user_ratings g =
     concat (map (\<lambda>m. case map_of user_ratings (mid m) of
                         None \<Rightarrow> []
                       | Some r \<Rightarrow> replicate (count_list (genres m) g) r) (movies d))"

text \<open>Three users and two horror films: two users like the genre, the third does not.\<close>

definition horror_db :: db where
  "horror_db =
     \<lparr>ratings =
        [\<lparr>user_id = 2, movie_id = 10, rating_value = 4.0\<rparr>,
         \<lparr>user_id = 2, movie_id = 11, rating_value = 4.5\<rparr>,
         \<lparr>user_id = 3, movie_id = 10, rating_value = 4.0\<rparr>,
         \<lparr>user_id = 3, movie_id = 11, rating_value = 4.0\<rparr>,
         \<lparr>user_id = 4, movie_id = 10, rating_value = 2.0\<rparr>,
         \<lparr>user_id = 4, movie_id = 11, rating_value = 2.0\<rparr>],
      movies =
        [\<lparr>mid = 10, genres = [''Horror''], overview = None, tagline = None,
          vote_average = Some 7, vote_count = 300, popularity = Some 40, is_active = True\<rparr>,
         \<lparr>mid = 11, genres = [''Horror''], overview = None, tagline = None,
          vote_average = Some 6, vote_count = 200, popularity = Some 30, is_active = True\<rparr>],
      reviews = []\<rparr>"

text \<open>Reading an accumulator dictionary at a key, with the value of an absent key.\<close>

definition totals_at :: "(string \<times> real \<times> nat) list \<Rightarrow> string \<Rightarrow> real \<times> nat" where
  "totals_at acc g = (case map_of acc g of None \<Rightarrow> (0, 0) | Some tc \<Rightarrow> tc)"

definition support_at :: "(string \<times> nat) list \<Rightarrow> string \<Rightarrow> nat" where
  "support_at genre_sup g = (case map_of genre_sup g of None \<Rightarrow> 0 | Some s \<Rightarrow> s)"

text \<open>Whether a preference dictionary gives the genre an average of at least 3.5.\<close>

definition likes_genre :: "(string \<times> real) list \<Rightarrow> string \<Rightarrow> bool" where
  "likes_genre prefs g = (case map_of prefs g of None \<Rightarrow> False | Some avg \<Rightarrow> avg \<ge> 3.5)"





text \<open>
  Five films with a symmetric similarity matrix. User 7 rated film 1 with 5.0, film 2 with
  4.0 and film 3 with 2.0; user 8 rated film 1 with 3.0.
\<close>

definition film :: "int \<Rightarrow> movie" where
  "film i =
     \<lparr>mid = i, genres = [''Drama''], overview = None, tagline = None,
      vote_average = Some 7, vote_count = 500, popularity = Some 10, is_active = True\<rparr>"

definition content_db :: db where
  "content_db =
     \<lparr>ratings =
        [\<lparr>user_id = 7, movie_id = 1, rating_value = 5\<rparr>,
         \<lparr>user_id = 7, movie_id = 2, rating_value = 4\<rparr>,
         \<lparr>user_id = 7, movie_id = 3, rating_value = 2\<rparr>,
         \<lparr>user_id = 8, movie_id = 1, rating_value = 3\<rparr>],
      movies = [film 1, film 2, film 3, film 4, film 5],
      reviews = []\<rparr>"

definition example_content_model :: content_model where
  "example_content_model =
     \<lparr>similarity_matrix =
        [[1, 0.2, 0.6, 0.9, 0.4],
         [0.2, 1, 0.7, 0.1, 0.5],
         [0.6, 0.7, 1, 0.3, 0.3],
         [0.9, 0.1, 0.3, 1, 0.2],
         [0.4, 0.5, 0.3, 0.2, 1]],
      movie_indices = [(1, 0), (2, 1), (3, 2), (4, 3), (5, 4)]\<rparr>"

text \<open>
  A collaborative model over three users (7, 8, 9 at rows 0, 1, 2) and three films (1, 2,
  3 at columns 0, 1, 2), with the rating store it was built from.
\<close>

definition collab_db :: db where
  "collab_db =
     \<lparr>ratings =
        [\<lparr>user_id = 7, movie_id = 1, rating_value = 5\<rparr>,
         \<lparr>user_id = 8, movie_id = 1, rating_value = 5\<rparr>,
         \<lparr>user_id = 8, movie_id = 2, rating_value = 4.5\<rparr>,
         \<lparr>user_id = 9, movie_id = 1, rating_value = 4\<rparr>,
         \<lparr>user_id = 9, movie_id = 3, rating_value = 5\<rparr>],
      movies = [film 1, film 2, film 3],
      reviews = []\<rparr>"

definition example_collab_model :: collab_model where
  "example_collab_model =
     \<lparr>user_movie_matrix = [[5, 0, 0], [5, 4.5, 0], [4, 0, 5]],
      user_similarity_matrix = Some [[1, 0.7, 0.6], [0.7, 1, 0.4], [0.6, 0.4, 1]],
      user_index_map = [(7, 0), (8, 1), (9, 2)],
      reverse_movie_map = [(0, 1), (1, 2), (2, 3)]\<rparr>"

text \<open>
  A catalogue where rounding decides: user 1 has no ratings, user 2 rated two dramas with
  2.0 and 3.0, user 3 rated them with 3.0 and 4.0; film 12 is an unrated drama with a vote
  average of 8.5. In exact arithmetic its group satisfaction is 3/5.
\<close>

definition rounding_film :: movie where
  "rounding_film =
     \<lparr>mid = 12, genres = [''Drama''], overview = None, tagline = None,
      vote_average = Some 8.5, vote_count = 400, popularity = Some 20, is_active = True\<rparr>"

definition rounding_db :: db where
  "rounding_db =
     \<lparr>ratings =
        [\<lparr>user_id = 2, movie_id = 20, rating_value = 2\<rparr>,
         \<lparr>user_id = 2, movie_id = 21, rating_value = 3\<rparr>,
         \<lparr>user_id = 3, movie_id = 20, rating_value = 3\<rparr>,
         \<lparr>user_id = 3, movie_id = 21, rating_value = 4\<rparr>],
      movies =
        [rounding_film,
         \<lparr>mid = 20, genres = [''Drama''], overview = None, tagline = None,
          vote_average = Some 6, vote_count = 300, popularity = Some 15, is_active = True\<rparr>,
         \<lparr>mid = 21, genres = [''Drama''], overview = None, tagline = None,
          vote_average = Some 6, vote_count = 300, popularity = Some 12, is_active = True\<rparr>],
      reviews = []\<rparr>"

section \<open>Verified properties\<close>

subsection \<open>Hybrid weight schedule\<close>

text \<open>
  Claim C1. The weights used for a user are decided by that user's number of rating rows
  alone: below 5 ratings (0.6, 0.1, 0.3) for content, collaborative and popularity;
  from 5 to 19 ratings (0.5, 0.3, 0.2); from 20 ratings on (0.3, 0.6, 0.1). The
  boundaries fall exactly at 5 and 20.
\<close>

theorem weight_schedule_by_rating_count:
  "(user_ratings_count d u < 5 \<longrightarrow>
      personal_weights d u =
        \<lparr>content_weight = 0.6, collaborative_weight = 0.1, popularity_weight = 0.3\<rparr>) \<and>
   (5 \<le> user_ratings_count d u \<and> user_ratings_count d u < 20 \<longrightarrow>
      personal_weights d u =
        \<lparr>content_weight = 0.5, collaborative_weight = 0.3, popularity_weight = 0.2\<rparr>) \<and>
   (20 \<le> user_ratings_count d u \<longrightarrow>
      personal_weights d u =
        \<lparr>content_weight = 0.3, collaborative_weight = 0.6, popularity_weight = 0.1\<rparr>)"
  by (simp add: personal_weights_def activity_weights_def)

theorem weight_schedule_by_rating_count_witness:
  "user_ratings_count
         \<lparr>ratings = replicate 0 \<lparr>user_id = 7, movie_id = 1, rating_value = 4\<rparr>,
            movies = [], reviews = []\<rparr> 7 < 5 \<and>
   personal_weights
         \<lparr>ratings = replicate 0 \<lparr>user_id = 7, movie_id = 1, rating_value = 4\<rparr>,
            movies = [], reviews = []\<rparr> 7 =
     \<lparr>content_weight = 0.6, collaborative_weight = 0.1, popularity_weight = 0.3\<rparr> \<and>
   user_ratings_count
         \<lparr>ratings = replicate 4 \<lparr>user_id = 7, movie_id = 1, rating_value = 4\<rparr>,
            movies = [], reviews = []\<rparr> 7 < 5 \<and>
   personal_weights
         \<lparr>ratings = replicate 4 \<lparr>user_id = 7, movie_id = 1, rating_value = 4\<rparr>,
            movies = [], reviews = []\<rparr> 7 =
     \<lparr>content_weight = 0.6, collaborative_weight = 0.1, popularity_weight = 0.3\<rparr> \<and>
   5 \<le> user_ratings_count
         \<lparr>ratings = replicate 5 \<lparr>user_id = 7, movie_id = 1, rating_value = 4\<rparr>,
            movies = [], reviews = []\<rparr> 7 \<and>
   user_ratings_count
         \<lparr>ratings = replicate 5 \<lparr>user_id = 7, movie_id = 1, rating_value = 4\<rparr>,
            movies = [], reviews = []\<rparr> 7 < 20 \<and>
   personal_weights
         \<lparr>ratings = replicate 5 \<lparr>user_id = 7, movie_id = 1, rating_value = 4\<rparr>,
            movies = [], reviews = []\<rparr> 7 =
     \<lparr>content_weight = 0.5, collaborative_weight = 0.3, popularity_weight = 0.2\<rparr> \<and>
   5 \<le> user_ratings_count
         \<lparr>ratings = replicate 19 \<lparr>user_id = 7, movie_id = 1, rating_value = 4\<rparr>,
            movies = [], reviews = []\<rparr> 7 \<and>
   user_ratings_count
         \<lparr>ratings = replicate 19 \<lparr>user_id = 7, movie_id = 1, rating_value = 4\<rparr>,
            movies = [], reviews = []\<rparr> 7 < 20 \<and>
   personal_weights
         \<lparr>ratings = replicate 19 \<lparr>user_id = 7, movie_id = 1, rating_value = 4\<rparr>,
            movies = [], reviews = []\<rparr> 7 =
     \<lparr>content_weight = 0.5, collaborative_weight = 0.3, popularity_weight = 0.2\<rparr> \<and>
   20 \<le> user_ratings_count
         \<lparr>ratings = replicate 20 \<lparr>user_id = 7, movie_id = 1, rating_value = 4\<rparr>,
            movies = [], reviews = []\<rparr> 7 \<and>
   personal_weights
         \<lparr>ratings = replicate 20 \<lparr>user_id = 7, movie_id = 1, rating_value = 4\<rparr>,
            movies = [], reviews = []\<rparr> 7 =
     \<lparr>content_weight = 0.3, collaborative_weight = 0.6, popularity_weight = 0.1\<rparr> \<and>
   20 \<le> user_ratings_count
         \<lparr>ratings = replicate 25 \<lparr>user_id = 7, movie_id = 1, rating_value = 4\<rparr>,
            movies = [], reviews = []\<rparr> 7 \<and>
   personal_weights
         \<lparr>ratings = replicate 25 \<lparr>user_id = 7, movie_id = 1, rating_value = 4\<rparr>,
            movies = [], reviews = []\<rparr> 7 =
     \<lparr>content_weight = 0.3, collaborative_weight = 0.6, popularity_weight = 0.1\<rparr>"
  using
    weight_schedule_by_rating_count
      [of "\<lparr>ratings = replicate 0 \<lparr>user_id = 7, movie_id = 1, rating_value = 4\<rparr>,
            movies = [], reviews = []\<rparr>" 7]
    weight_schedule_by_rating_count
      [of "\<lparr>ratings = replicate 4 \<lparr>user_id = 7, movie_id = 1, rating_value = 4\<rparr>,
            movies = [], reviews = []\<rparr>" 7]
    weight_schedule_by_rating_count
      [of "\<lparr>ratings = replicate 5 \<lparr>user_id = 7, movie_id = 1, rating_value = 4\<rparr>,
            movies = [], reviews = []\<rparr>" 7]
    weight_schedule_by_rating_count
      [of "\<lparr>ratings = replicate 19 \<lparr>user_id = 7, movie_id = 1, rating_value = 4\<rparr>,
            movies = [], reviews = []\<rparr>" 7]
    weight_schedule_by_rating_count
      [of "\<lparr>ratings = replicate 20 \<lparr>user_id = 7, movie_id = 1, rating_value = 4\<rparr>,
            movies = [], reviews = []\<rparr>" 7]
    weight_schedule_by_rating_count
      [of "\<lparr>ratings = replicate 25 \<lparr>user_id = 7, movie_id = 1, rating_value = 4\<rparr>,
            movies = [], reviews = []\<rparr>" 7]
  by (simp add: user_ratings_count_def)

subsection \<open>Helper facts: strings and the mood vocabulary\<close>

lemma lower_char_idem: "lower_char (lower_char c) = lower_char c"
  by (simp add: lower_char_def)

lemma lower_idem: "lower (lower s) = lower s"
  by (simp add: lower_def lower_char_idem)

lemma lower_HAPPY: "lower ''HAPPY'' = ''happy''"
  by code_simp

lemma lower_happy: "lower ''happy'' = ''happy''"
  by code_simp

lemma lower_bored: "lower ''bored'' = ''bored''"
  by code_simp

lemma vocabulary_keys: "map fst mood_genre_mapping = valid_moods"
  by (simp add: mood_genre_mapping_def valid_moods_def)

lemma known_mood_iff: "(map_of mood_genre_mapping x \<noteq> None) = (x \<in> set valid_moods)"
  using vocabulary_keys by (metis map_of_eq_None_iff list.set_map)

lemma mood_lower_cong:
  "lower a = lower b \<Longrightarrow>
   get_mood_recommendations polarity d u a limit = get_mood_recommendations polarity d u b limit"
  unfolding get_mood_recommendations_def by (erule subst) (rule refl)

lemma example_happy:
  "get_mood_recommendations positive_polarity example_db 7 ''happy'' 10 = [example_comedy]"
  by (simp add: get_mood_recommendations_def lower_happy mood_genre_mapping_def
      mood_candidates_def example_db_def example_comedy_def example_horror_def
      user_rated_movies_def sorted_reverse_def)

subsection \<open>Mood scorer: review sentiment\<close>

lemma sentiment_loop_closed:
  "sentiment_loop polarity mood rs (s, n) =
     (s + sum_list (map (\<lambda>c. sentiment_term mood (polarity c)) (reviews_with_content rs)),
      n + length (reviews_with_content rs))"
  by (induction rs arbitrary: s n) (simp_all add: reviews_with_content_def split: option.splits)

lemma reviews_with_content_Nil: "reviews_with_content [] = []"
  by (simp add: reviews_with_content_def)

text \<open>
  Claim C9. The review-sentiment score of a movie for a mood is the average, over the
  sampled reviews that have a text, of a per-review term of the polarity \<open>p\<close>: for
  "scared" the term is zero for every non-negative polarity and \<open>-p\<close> for a negative
  one; for happy, excited and energetic it is \<open>max 0 p\<close>; for sad and thoughtful it is
  \<open>\<bar>p\<bar>\<close>; for every other mood it is half of \<open>\<bar>p\<bar>\<close>.
\<close>

theorem review_sentiment_compatibility:
  "get_review_sentiment_score polarity d m_id mood =
     (let cs = reviews_with_content (sampled_reviews d m_id) in
      if cs = [] then 0
      else sum_list (map (\<lambda>c. sentiment_term mood (polarity c)) cs) / real (length cs)) \<and>
   (0 \<le> p \<longrightarrow> sentiment_term ''scared'' p = 0) \<and>
   (p < 0 \<longrightarrow> sentiment_term ''scared'' p = - p) \<and>
   (mood \<in> {''happy'', ''excited'', ''energetic''} \<longrightarrow> sentiment_term mood p = max 0 p) \<and>
   (mood \<in> {''sad'', ''thoughtful''} \<longrightarrow> sentiment_term mood p = \<bar>p\<bar>) \<and>
   (mood \<notin> {''happy'', ''excited'', ''energetic'', ''sad'', ''thoughtful'', ''scared''} \<longrightarrow>
      sentiment_term mood p = \<bar>p\<bar> * 0.5)"
proof -
  have "get_review_sentiment_score polarity d m_id mood =
     (let cs = reviews_with_content (sampled_reviews d m_id) in
      if cs = [] then 0
      else sum_list (map (\<lambda>c. sentiment_term mood (polarity c)) cs) / real (length cs))"
    by (simp add: get_review_sentiment_score_def sentiment_loop_closed Let_def
        reviews_with_content_Nil)
  moreover have "0 \<le> p \<longrightarrow> sentiment_term ''scared'' p = 0"
    by (simp add: sentiment_term_def)
  moreover have "p < 0 \<longrightarrow> sentiment_term ''scared'' p = - p"
    by (simp add: sentiment_term_def)
  moreover have
    "mood \<in> {''happy'', ''excited'', ''energetic''} \<longrightarrow> sentiment_term mood p = max 0 p"
    by (auto simp add: sentiment_term_def)
  moreover have "mood \<in> {''sad'', ''thoughtful''} \<longrightarrow> sentiment_term mood p = \<bar>p\<bar>"
    by (auto simp add: sentiment_term_def)
  moreover have
    "mood \<notin> {''happy'', ''excited'', ''energetic'', ''sad'', ''thoughtful'', ''scared''} \<longrightarrow>
      sentiment_term mood p = \<bar>p\<bar> * 0.5"
    by (simp add: sentiment_term_def)
  ultimately show ?thesis by blast
qed

theorem review_sentiment_compatibility_witness:
  "reviews_with_content (sampled_reviews example_db 2) = [''a delight''] \<and>
   get_review_sentiment_score positive_polarity example_db 2 ''scared'' = 0 \<and>
   (0::real) \<le> 0.8 \<and> sentiment_term ''scared'' 0.8 = 0 \<and>
   (-0.5::real) < 0 \<and> sentiment_term ''scared'' (-0.5) = 0.5 \<and>
   ''happy'' \<in> {''happy'', ''excited'', ''energetic''} \<and> sentiment_term ''happy'' (-0.5) = 0 \<and>
   ''sad'' \<in> {''sad'', ''thoughtful''} \<and> sentiment_term ''sad'' (-0.5) = 0.5 \<and>
   ''romantic'' \<notin> {''happy'', ''excited'', ''energetic'', ''sad'', ''thoughtful'', ''scared''} \<and>
   sentiment_term ''romantic'' (-0.5) = 0.25"
  using review_sentiment_compatibility [of positive_polarity example_db 2 "''scared''" "0.8"]
    review_sentiment_compatibility [of positive_polarity example_db 2 "''happy''" "-0.5"]
    review_sentiment_compatibility [of positive_polarity example_db 2 "''sad''" "-0.5"]
    review_sentiment_compatibility [of positive_polarity example_db 2 "''romantic''" "-0.5"]
  by (simp add: sampled_reviews_def example_db_def reviews_with_content_def positive_polarity_def)

subsection \<open>Mood scorer: vocabulary and case\<close>

text \<open>
  Claim C10. The mood label is matched without regard to case: the scorer returns for a
  mood string \<open>m\<close> what it returns for \<open>lower m\<close>; its vocabulary lookup finds
  \<open>lower m\<close> exactly when \<open>lower m\<close> is one of the ten labels; the endpoint returns a
  list (instead of rejecting the request) exactly in that case, and returns the same for
  \<open>m\<close> and \<open>lower m\<close> when the cache holds the same for both.
\<close>

theorem mood_matching_case_insensitive:
  "get_mood_recommendations polarity d u m limit =
     get_mood_recommendations polarity d u (lower m) limit \<and>
   (map_of mood_genre_mapping (lower m) \<noteq> None \<longleftrightarrow> lower m \<in> set valid_moods) \<and>
   ((\<exists>recs. get_mood_based_recommendations cache_get polarity d u m limit = Inr recs)
      \<longleftrightarrow> lower m \<in> set valid_moods) \<and>
   (cache_get m u limit = cache_get (lower m) u limit \<longrightarrow>
      get_mood_based_recommendations cache_get polarity d u m limit =
        get_mood_based_recommendations cache_get polarity d u (lower m) limit)"
proof (intro conjI impI)
  assume "cache_get m u limit = cache_get (lower m) u limit"
  then show "get_mood_based_recommendations cache_get polarity d u m limit =
        get_mood_based_recommendations cache_get polarity d u (lower m) limit"
    by (simp add: get_mood_based_recommendations_def lower_idem
        split: option.splits list.splits)
next
  show "get_mood_recommendations polarity d u m limit =
          get_mood_recommendations polarity d u (lower m) limit"
    by (rule mood_lower_cong) (simp add: lower_idem)
  show "map_of mood_genre_mapping (lower m) \<noteq> None \<longleftrightarrow> lower m \<in> set valid_moods"
    by (rule known_mood_iff)
  show "(\<exists>recs. get_mood_based_recommendations cache_get polarity d u m limit = Inr recs)
          \<longleftrightarrow> lower m \<in> set valid_moods"
    by (simp add: get_mood_based_recommendations_def split: option.splits list.splits)
qed

theorem mood_matching_case_insensitive_witness:
  "get_mood_recommendations positive_polarity example_db 7 ''HAPPY'' 10 = [example_comedy] \<and>
   get_mood_recommendations positive_polarity example_db 7 ''happy'' 10 = [example_comedy] \<and>
   lower ''HAPPY'' \<in> set valid_moods \<and>
   empty_cache ''HAPPY'' 7 10 = empty_cache (lower ''HAPPY'') 7 10 \<and>
   get_mood_based_recommendations empty_cache positive_polarity example_db 7 ''HAPPY'' 10 =
     get_mood_based_recommendations empty_cache positive_polarity example_db 7 ''happy'' 10"
  using
    mood_matching_case_insensitive [of positive_polarity example_db 7 "''HAPPY''" 10 empty_cache]
    example_happy
  by (simp add: lower_HAPPY valid_moods_def empty_cache_def)

text \<open>
  Claim C6, as the code has it. A mood string whose lower-case form is not one of the ten
  labels yields no recommendation at all: the scorer returns the empty list (it raises
  nothing), and the endpoint rejects the request with status 400 before the scorer runs.
\<close>

theorem unknown_mood_rejected:
  "lower mood \<notin> set valid_moods \<Longrightarrow>
   get_mood_recommendations polarity d u mood limit = [] \<and>
   get_mood_based_recommendations cache_get polarity d u mood limit = Inl HTTP_400_BAD_REQUEST"
  using known_mood_iff [of "lower mood"]
  by (simp add: get_mood_recommendations_def get_mood_based_recommendations_def)

theorem unknown_mood_rejected_witness:
  "lower ''bored'' \<notin> set valid_moods \<and>
   get_mood_recommendations positive_polarity example_db 7 ''bored'' 10 = [] \<and>
   get_mood_based_recommendations empty_cache positive_polarity example_db 7 ''bored'' 10 =
     Inl HTTP_400_BAD_REQUEST"
  using unknown_mood_rejected [of "''bored''" positive_polarity example_db 7 10 empty_cache]
  by (simp add: lower_bored valid_moods_def)

text \<open>
  The string "HAPPY" is not one of the ten labels, yet neither the scorer nor the endpoint
  fails on it: both return the comedy of the sample catalogue.
\<close>

theorem uppercase_mood_accepted_counterexample:
  "''HAPPY'' \<notin> set valid_moods \<and>
   get_mood_recommendations positive_polarity example_db 7 ''HAPPY'' 10 = [example_comedy] \<and>
   get_mood_based_recommendations empty_cache positive_polarity example_db 7 ''HAPPY'' 10 =
     Inr [example_comedy]"
proof -
  have "get_mood_recommendations positive_polarity example_db 7 ''HAPPY'' 10 =
          get_mood_recommendations positive_polarity example_db 7 ''happy'' 10"
    by (rule mood_lower_cong) (simp add: lower_HAPPY lower_happy)
  then show ?thesis
    using example_happy
    by (simp add: valid_moods_def get_mood_based_recommendations_def lower_HAPPY
        empty_cache_def)
qed

subsection \<open>Helper facts: the descending stable sort\<close>

lemma set_insort_reverse: "set (insort_reverse key x xs) = insert x (set xs)"
  by (induction xs) auto

lemma set_sorted_reverse: "set (sorted_reverse key xs) = set xs"
  unfolding sorted_reverse_def by (induction xs) (simp_all add: set_insort_reverse)

lemma length_insort_reverse: "length (insort_reverse key x xs) = Suc (length xs)"
  by (induction xs) auto

lemma length_sorted_reverse: "length (sorted_reverse key xs) = length xs"
  unfolding sorted_reverse_def by (induction xs) (simp_all add: length_insort_reverse)

lemma sorted_insort_reverse:
  "sorted_wrt (\<lambda>a b. key b \<le> key a) xs \<Longrightarrow>
   sorted_wrt (\<lambda>a b. key b \<le> key a) (insort_reverse key x xs)"
  by (induction xs) (auto simp add: set_insort_reverse)

lemma sorted_sorted_reverse: "sorted_wrt (\<lambda>a b. key b \<le> key a) (sorted_reverse key xs)"
  unfolding sorted_reverse_def by (induction xs) (simp_all add: sorted_insort_reverse)

lemma insort_reverse_map:
  "insort_reverse key (f x) (map f xs) = map f (insort_reverse (\<lambda>y. key (f y)) x xs)"
  by (induction xs) auto

lemma sorted_reverse_map:
  "sorted_reverse key (map f xs) = map f (sorted_reverse (\<lambda>y. key (f y)) xs)"
  unfolding sorted_reverse_def by (induction xs) (simp_all add: insort_reverse_map)

lemma sorted_wrt_take: "sorted_wrt P xs \<Longrightarrow> sorted_wrt P (take n xs)"
  by (metis append_take_drop_id sorted_wrt_append)

subsection \<open>Group consensus scorer: common genres\<close>

lemma map_of_None_keys: "map_of xs k = None \<longleftrightarrow> k \<notin> fst ` set xs"
  by (simp add: map_of_eq_None_iff)

lemma add_genres_distinct:
  "distinct (map fst acc) \<Longrightarrow> distinct (map fst (add_genres r gs acc))"
  by (induction gs arbitrary: acc) (auto simp add: distinct_update split: option.splits)

lemma add_genre_step:
  "totals_at (case map_of acc x of
                None \<Rightarrow> AList.update x (0 + r, 0 + 1) acc
              | Some (total_score, n) \<Rightarrow> AList.update x (total_score + r, n + 1) acc) g =
     (if x = g then (fst (totals_at acc g) + r, snd (totals_at acc g) + 1)
      else totals_at acc g)"
  by (auto simp add: totals_at_def update_conv' split: option.splits)

lemma add_genres_lookup:
  "totals_at (add_genres r gs acc) g =
     (fst (totals_at acc g) + real (count_list gs g) * r,
      snd (totals_at acc g) + count_list gs g)"
proof (induction gs arbitrary: acc)
  case Nil
  then show ?case by simp
next
  case (Cons x gs)
  show ?case
    by (simp add: Cons.IH add_genre_step algebra_simps)
qed

lemma genre_totals_distinct:
  "distinct (map fst acc) \<Longrightarrow> distinct (map fst (genre_totals ur ms acc))"
  by (induction ms arbitrary: acc) (auto simp add: add_genres_distinct split: option.splits)

lemma genre_totals_lookup:
  "totals_at (genre_totals ur ms acc) g =
     (fst (totals_at acc g)
        + sum_list (concat (map (\<lambda>m. case map_of ur (mid m) of None \<Rightarrow> []
                          | Some r \<Rightarrow> replicate (count_list (genres m) g) r) ms)),
      snd (totals_at acc g)
        + length (concat (map (\<lambda>m. case map_of ur (mid m) of None \<Rightarrow> []
                          | Some r \<Rightarrow> replicate (count_list (genres m) g) r) ms)))"
proof (induction ms arbitrary: acc)
  case Nil
  then show ?case by simp
next
  case (Cons m ms)
  show ?case
  proof (cases "map_of ur (mid m)")
    case None
    then show ?thesis by (simp add: Cons.IH)
  next
    case (Some r)
    then show ?thesis
      by (simp add: Cons.IH add_genres_lookup sum_list_replicate algebra_simps)
  qed
qed

lemma concat_rated_only:
  "concat (map (\<lambda>m. case map_of ur (mid m) of None \<Rightarrow> [] | Some r \<Rightarrow> f m r)
             (filter (\<lambda>m. mid m \<in> fst ` set ur) ms)) =
   concat (map (\<lambda>m. case map_of ur (mid m) of None \<Rightarrow> [] | Some r \<Rightarrow> f m r) ms)"
proof (induction ms)
  case Nil
  then show ?case by simp
next
  case (Cons m ms)
  show ?case
  proof (cases "mid m \<in> fst ` set ur")
    case True
    then show ?thesis by (simp add: Cons.IH)
  next
    case False
    then have "map_of ur (mid m) = None" by (simp add: map_of_None_keys)
    then show ?thesis using False by (simp add: Cons.IH)
  qed
qed

lemma map_of_averages:
  "distinct (map fst xs) \<Longrightarrow>
   map_of (map (\<lambda>(g, total_score, n). (g, total_score / real n))
             (filter (\<lambda>(g, total_score, n). n \<ge> 2) xs)) g =
     (if 2 \<le> snd (totals_at xs g)
      then Some (fst (totals_at xs g) / real (snd (totals_at xs g))) else None)"
proof (induction xs)
  case Nil
  then show ?case by (simp add: totals_at_def)
next
  case (Cons x xs)
  obtain g' t c where x: "x = (g', t, c)" by (cases x) auto
  from Cons.prems have notin: "g' \<notin> fst ` set xs" and dxs: "distinct (map fst xs)"
    by (auto simp add: x)
  have none: "map_of xs g' = None" using notin by (simp add: map_of_None_keys)
  have at: "totals_at ((g', t, c) # xs) h = (if h = g' then (t, c) else totals_at xs h)" for h
    by (simp add: totals_at_def)
  have atx: "totals_at xs g' = (0, 0)" using none by (simp add: totals_at_def)
  show ?case
  proof (cases "g = g'")
    case True
    then show ?thesis using Cons.IH [OF dxs] atx by (simp add: x at)
  next
    case False
    then show ?thesis using Cons.IH [OF dxs] by (simp add: x at)
  qed
qed

lemma totals_at_empty: "totals_at [] g = (0, 0)"
  by (simp add: totals_at_def)

lemma concat_no_ratings: "concat (map (\<lambda>m. []) ms) = []"
  by (induction ms) simp_all

lemma genre_preference_average:
  "map_of (get_user_genre_preferences d ur) g =
     (if 2 \<le> length (genre_ratings d ur g)
      then Some (sum_list (genre_ratings d ur g) / real (length (genre_ratings d ur g)))
      else None)"
proof (cases "ur = []")
  case True
  then show ?thesis
    by (simp add: get_user_genre_preferences_def genre_ratings_def concat_no_ratings)
next
  case False
  let ?ms = "filter (\<lambda>m. mid m \<in> fst ` set ur) (movies d)"
  let ?tot = "genre_totals ur ?ms []"
  have d: "distinct (map fst ?tot)" by (rule genre_totals_distinct) simp
  have look: "totals_at ?tot g =
      (sum_list (genre_ratings d ur g), length (genre_ratings d ur g))"
    using totals_at_empty [of g]
    by (simp add: genre_totals_lookup genre_ratings_def concat_rated_only)
  show ?thesis
    using False by (simp add: get_user_genre_preferences_def map_of_averages [OF d] look)
qed

lemma genre_preferences_distinct: "distinct (map fst (get_user_genre_preferences d ur))"
proof -
  have d: "distinct (map fst (genre_totals ur ms []))" for ms
    by (rule genre_totals_distinct) simp
  have "map fst (map (\<lambda>(g, total_score, n). (g, total_score / real n)) xs) = map fst xs"
    for xs :: "(string \<times> real \<times> nat) list"
    by (induction xs) auto
  then have "map fst (get_user_genre_preferences d ur) =
      (if ur = [] then []
       else map fst (filter (\<lambda>(g, total_score, n). n \<ge> 2)
              (genre_totals ur (filter (\<lambda>m. mid m \<in> fst ` set ur) (movies d)) [])))"
    by (simp add: get_user_genre_preferences_def)
  then show ?thesis
    using d by (simp add: distinct_map_filter)
qed
lemma support_genres_distinct:
  "distinct (map fst S) \<Longrightarrow> distinct (map fst (support_genres prefs S))"
  by (induction prefs S rule: support_genres.induct)
     (auto simp add: distinct_update split: option.splits)

lemma support_step:
  "support_at (if avg \<ge> 3.5 then
                 (case map_of S x of
                    None \<Rightarrow> AList.update x (0 + 1) S
                  | Some s \<Rightarrow> AList.update x (s + 1) S)
               else S) g =
     support_at S g + (if x = g \<and> avg \<ge> 3.5 then 1 else 0)"
  by (auto simp add: support_at_def update_conv' split: option.splits)

lemma support_genres_lookup:
  "support_at (support_genres prefs S) g =
     support_at S g + length (filter (\<lambda>(g', avg). g' = g \<and> avg \<ge> 3.5) prefs)"
proof (induction prefs S rule: support_genres.induct)
  case (1 S)
  then show ?case by simp
next
  case (2 genre avg_rating prefs S)
  show ?case
    unfolding support_genres.simps "2.IH" support_step by simp
qed

lemma likes_genre_count:
  "distinct (map fst prefs) \<Longrightarrow>
   length (filter (\<lambda>(g', avg). g' = g \<and> avg \<ge> 3.5) prefs) =
     (if likes_genre prefs g then 1 else 0)"
proof (induction prefs)
  case Nil
  then show ?case by (simp add: likes_genre_def)
next
  case (Cons p prefs)
  obtain g' a where p: "p = (g', a)" by (cases p) auto
  from Cons.prems have notin: "g' \<notin> fst ` set prefs" and dp: "distinct (map fst prefs)"
    by (auto simp add: p)
  have none: "map_of prefs g' = None" using notin by (simp add: map_of_None_keys)
  have nl: "\<not> likes_genre prefs g'" using none by (simp add: likes_genre_def)
  have lk: "likes_genre ((g', a) # prefs) h =
              (if h = g' then a \<ge> 3.5 else likes_genre prefs h)" for h
    by (simp add: likes_genre_def)
  show ?case
  proof (cases "g = g'")
    case True
    then show ?thesis using Cons.IH [OF dp] nl by (simp add: p lk)
  next
    case False
    then show ?thesis using Cons.IH [OF dp] by (auto simp add: p lk)
  qed
qed

lemma genre_support_fold:
  "support_at
     (fold (\<lambda>u acc. support_genres (get_user_genre_preferences d (user_rating_dict d u)) acc)
        us S) g =
   support_at S g +
     length (filter (\<lambda>u. likes_genre (get_user_genre_preferences d (user_rating_dict d u)) g)
               us)"
proof (induction us arbitrary: S)
  case Nil
  then show ?case by simp
next
  case (Cons u us)
  let ?prefs = "get_user_genre_preferences d (user_rating_dict d u)"
  have step: "support_at (support_genres ?prefs S) g =
                support_at S g + (if likes_genre ?prefs g then 1 else 0)"
    by (simp only: support_genres_lookup likes_genre_count [OF genre_preferences_distinct])
  show ?case
    by (simp add: Cons.IH step)
qed

lemma support_at_empty: "support_at [] g = 0"
  by (simp add: support_at_def)

lemma genre_support_fold_distinct:
  "distinct (map fst S) \<Longrightarrow>
   distinct (map fst
     (fold (\<lambda>u acc. support_genres (get_user_genre_preferences d (user_rating_dict d u)) acc)
        us S))"
  by (induction us arbitrary: S) (simp_all add: support_genres_distinct)

lemma dict_keys_distinct: "distinct (dict_keys xs)"
  by (simp add: dict_keys_def)

lemma dict_keys_set: "set (dict_keys xs) = set xs"
  by (simp add: dict_keys_def)

lemma genre_support_count:
  "support_at (genre_support d user_ids) g =
     card {u \<in> set user_ids.
             likes_genre (get_user_genre_preferences d (user_rating_dict d u)) g}"
proof -
  let ?P = "\<lambda>u. likes_genre (get_user_genre_preferences d (user_rating_dict d u)) g"
  have "support_at (genre_support d user_ids) g = length (filter ?P (dict_keys user_ids))"
    by (simp add: genre_support_def genre_support_fold support_at_empty)
  also have "\<dots> = card (set (filter ?P (dict_keys user_ids)))"
    by (rule distinct_card [symmetric]) (simp add: dict_keys_distinct)
  also have "set (filter ?P (dict_keys user_ids)) = {u \<in> set user_ids. ?P u}"
    by (simp add: dict_keys_set)
  finally show ?thesis .
qed

lemma common_genres_support:
  "g \<in> set (common_genres d user_ids) \<longleftrightarrow>
     min_support user_ids \<le> support_at (genre_support d user_ids) g"
proof -
  let ?S = "genre_support d user_ids"
  have d: "distinct (map fst ?S)"
    unfolding genre_support_def by (rule genre_support_fold_distinct) simp
  have pos: "0 < min_support user_ids" by (simp add: min_support_def)
  have "g \<in> set (common_genres d user_ids) \<longleftrightarrow>
          (\<exists>s. (g, s) \<in> set ?S \<and> min_support user_ids \<le> s)"
    by (auto simp add: common_genres_def image_iff)
  also have "\<dots> \<longleftrightarrow> (\<exists>s. map_of ?S g = Some s \<and> min_support user_ids \<le> s)"
    using d by (simp add: map_of_eq_Some_iff)
  also have "\<dots> \<longleftrightarrow> min_support user_ids \<le> support_at ?S g"
    using pos by (cases "map_of ?S g") (simp_all add: support_at_def)
  finally show ?thesis .
qed

text \<open>
  Claim C5. A genre is among the common genres exactly when the number of group members
  who like it reaches \<open>n div 2 + 1\<close>, where \<open>n\<close> is the length of the list of member
  ids; a member likes a genre when at least two of the member's ratings fall in the genre
  and their average is at least 3.5. (For three members of whom exactly two like Horror,
  the support 2 meets the threshold 2.)
\<close>

theorem common_genre_threshold:
  "(g \<in> set (common_genres d user_ids) \<longleftrightarrow>
      length user_ids div 2 + 1 \<le>
        card {u \<in> set user_ids.
                likes_genre (get_user_genre_preferences d (user_rating_dict d u)) g}) \<and>
   (likes_genre (get_user_genre_preferences d ur) g \<longleftrightarrow>
      2 \<le> length (genre_ratings d ur g) \<and>
      3.5 \<le> sum_list (genre_ratings d ur g) / real (length (genre_ratings d ur g)))"
proof
  show "g \<in> set (common_genres d user_ids) \<longleftrightarrow>
      length user_ids div 2 + 1 \<le>
        card {u \<in> set user_ids.
                likes_genre (get_user_genre_preferences d (user_rating_dict d u)) g}"
    by (simp add: common_genres_support genre_support_count min_support_def)
  show "likes_genre (get_user_genre_preferences d ur) g \<longleftrightarrow>
      2 \<le> length (genre_ratings d ur g) \<and>
      3.5 \<le> sum_list (genre_ratings d ur g) / real (length (genre_ratings d ur g))"
    by (simp add: likes_genre_def genre_preference_average)
qed

lemma horror_preferences:
  "get_user_genre_preferences horror_db (user_rating_dict horror_db 2) = [(''Horror'', 17 / 4)] \<and>
   get_user_genre_preferences horror_db (user_rating_dict horror_db 3) = [(''Horror'', 4)] \<and>
   get_user_genre_preferences horror_db (user_rating_dict horror_db 4) = [(''Horror'', 2)]"
  by (simp add: get_user_genre_preferences_def user_rating_dict_def horror_db_def)

lemma horror_common: "common_genres horror_db [2, 3, 4] = [''Horror'']"
  by (simp add: common_genres_def genre_support_def dict_keys_def horror_preferences
      min_support_def)

theorem common_genre_threshold_witness:
  "length [2, 3, 4 :: nat] div 2 + 1 = 2 \<and>
   ''Horror'' \<in> set (common_genres horror_db [2, 3, 4]) \<and>
   likes_genre (get_user_genre_preferences horror_db (user_rating_dict horror_db 2)) ''Horror'' \<and>
   likes_genre (get_user_genre_preferences horror_db (user_rating_dict horror_db 3)) ''Horror'' \<and>
   \<not> likes_genre (get_user_genre_preferences horror_db (user_rating_dict horror_db 4)) ''Horror'' \<and>
   2 \<le> card {u \<in> set [2, 3, 4].
            likes_genre (get_user_genre_preferences horror_db (user_rating_dict horror_db u))
              ''Horror''}"
proof -
  have c: "''Horror'' \<in> set (common_genres horror_db [2, 3, 4])"
    by (simp add: horror_common)
  have n: "length [2, 3, 4 :: nat] div 2 + 1 = 2" by simp
  have k: "2 \<le> card {u \<in> set [2, 3, 4].
            likes_genre (get_user_genre_preferences horror_db (user_rating_dict horror_db u))
              ''Horror''}"
    using common_genre_threshold [of "''Horror''" horror_db "[2, 3, 4]" "[]"] c
    unfolding n by blast
  have l: "likes_genre (get_user_genre_preferences horror_db (user_rating_dict horror_db 2))
             ''Horror'' \<and>
           likes_genre (get_user_genre_preferences horror_db (user_rating_dict horror_db 3))
             ''Horror'' \<and>
           \<not> likes_genre (get_user_genre_preferences horror_db (user_rating_dict horror_db 4))
             ''Horror''"
    by (simp add: horror_preferences likes_genre_def)
  from c n k l show ?thesis by blast
qed

subsection \<open>Helper facts: rounding to binary64\<close>

lemmas round_double_unfold =
  round_double_def round_to_def unit_in_last_place_def ulp_of_exponent_def
  round_half_even_def nearest_even_def

text \<open>The floats that the literals 0.6, 0.7 and 0.8 denote.\<close>

lemma double_literals:
  "flit ieee_double 0.6 = 5404319552844595 / 9007199254740992"
  "flit ieee_double 0.7 = 3152519739159347 / 4503599627370496"
  "flit ieee_double 0.8 = 3602879701896397 / 4503599627370496"
  by (simp_all add: ieee_double_def round_double_unfold)

subsection \<open>Group consensus scorer: ranking\<close>

lemma length_map_filter_le: "length (List.map_filter f xs) \<le> length xs"
  by (simp add: List.map_filter_def)

lemma group_recommendations_ranked:
  assumes "2 \<le> length (List.map_filter parse_uuid user_ids)"
  shows "get_group_recommendations F parse_uuid d user_ids limit min_satisfaction =
     take limit
       (sorted_reverse
          (\<lambda>m. calculate_group_satisfaction F d m (List.map_filter parse_uuid user_ids))
          (filter
             (\<lambda>m. calculate_group_satisfaction F d m (List.map_filter parse_uuid user_ids)
                    \<ge> min_satisfaction)
             (find_consensus_candidates d (List.map_filter parse_uuid user_ids)
                (all_rated_movies d (List.map_filter parse_uuid user_ids)))))"
proof -
  let ?us = "List.map_filter parse_uuid user_ids"
  let ?sat = "\<lambda>m. calculate_group_satisfaction F d m ?us"
  let ?cands = "find_consensus_candidates d ?us (all_rated_movies d ?us)"
  have len: "\<not> length user_ids < 2"
    using assms length_map_filter_le [of parse_uuid user_ids] by linarith
  have flt: "filter (\<lambda>(m, s). s \<ge> min_satisfaction) (map (\<lambda>m. (m, ?sat m)) ?cands) =
        map (\<lambda>m. (m, ?sat m)) (filter (\<lambda>m. ?sat m \<ge> min_satisfaction) ?cands)"
    by (simp add: filter_map comp_def)
  have "get_group_recommendations F parse_uuid d user_ids limit min_satisfaction =
        map fst (take limit (sorted_reverse snd
          (map (\<lambda>m. (m, ?sat m)) (filter (\<lambda>m. ?sat m \<ge> min_satisfaction) ?cands))))"
    using assms len flt by (simp add: get_group_recommendations_def Let_def)
  also have "\<dots> = take limit (sorted_reverse ?sat (filter (\<lambda>m. ?sat m \<ge> min_satisfaction) ?cands))"
    by (simp add: sorted_reverse_map take_map comp_def)
  finally show ?thesis .
qed

lemma example_no_ratings: "user_rating_dict example_db u = []"
  by (simp add: user_rating_dict_def example_db_def)

text \<open>
  Two members without ratings: each predicted satisfaction is the vote average divided by
  10, in any arithmetic; in binary64 the group satisfactions of the two films of the sample
  catalogue are the floats 0.8 and 0.7.
\<close>

lemma example_satisfaction_formula:
  "calculate_group_satisfaction F example_db example_comedy [a, b] =
     max 0 (min 1
       (fadd F (fmul F (flit F 0.6) (fmean F [fdiv F 8 10, fdiv F 8 10]))
          (fmul F (flit F 0.4) (fdiv F 8 10))))"
  "calculate_group_satisfaction F example_db example_horror [a, b] =
     max 0 (min 1
       (fadd F (fmul F (flit F 0.6) (fmean F [fdiv F 7 10, fdiv F 7 10]))
          (fmul F (flit F 0.4) (fdiv F 7 10))))"
  by (simp_all add: calculate_group_satisfaction_def individual_satisfactions_def
        predict_user_satisfaction_def example_no_ratings or_default_def example_comedy_def
        example_horror_def Let_def)

lemma example_satisfaction:
  "calculate_group_satisfaction ieee_double example_db example_comedy [a, b] =
     3602879701896397 / 4503599627370496 \<and>
   calculate_group_satisfaction ieee_double example_db example_horror [a, b] =
     3152519739159347 / 4503599627370496"
  unfolding example_satisfaction_formula
  by (simp add: ieee_double_def double_sum_def round_double_unfold)

lemma example_common_genres: "common_genres example_db us = []"
proof -
  have "fold (\<lambda>u acc. support_genres
                (get_user_genre_preferences example_db (user_rating_dict example_db u)) acc)
          xs [] = []" for xs
    by (induction xs) (simp_all add: example_no_ratings get_user_genre_preferences_def)
  then show ?thesis by (simp add: common_genres_def genre_support_def)
qed

lemma example_candidates:
  "find_consensus_candidates example_db us (all_rated_movies example_db us) =
     [example_comedy, example_horror]"
  by (simp add: find_consensus_candidates_def example_common_genres all_rated_movies_def
      example_no_ratings order_by_popularity_desc_def)
     (simp add: example_db_def example_comedy_def example_horror_def sorted_reverse_def)

lemma example_group_output:
  "List.map_filter example_parse_uuid ids = [a, b] \<Longrightarrow>
   get_group_recommendations ieee_double example_parse_uuid example_db ids limit
       (flit ieee_double 0.6) =
     take limit [example_comedy, example_horror]"
  using group_recommendations_ranked
          [of example_parse_uuid ids ieee_double example_db limit "flit ieee_double 0.6"]
  unfolding double_literals
  by (simp add: example_candidates example_satisfaction sorted_reverse_def)

lemma example_parse_pair:
  "List.map_filter example_parse_uuid [''u1'', ''u2''] = [1, 2]"
  by (simp add: List.map_filter_def example_parse_uuid_def)

lemma example_parse_repeated:
  "List.map_filter example_parse_uuid [''u1'', ''u1''] = [1, 1]"
  by (simp add: List.map_filter_def example_parse_uuid_def)

text \<open>
  Claim C4, as the code has it. With at least two valid ids, the satisfaction of the group
  with a movie is computed in the arithmetic \<open>F\<close> of the interpreter: the float 0.6 times
  the mean of the members' predicted satisfactions, plus the float 0.4 times their
  minimum, each operation giving the float that \<open>F\<close> gives, the result clamped to [0,1].
  The returned list is the first \<open>limit\<close> entries of the candidates whose computed
  satisfaction reaches the threshold, in descending order of computed satisfaction: every
  returned movie is such a candidate, and all of them are returned when there are at most
  \<open>limit\<close>. This holds for every arithmetic, in particular for binary64.
\<close>

theorem group_satisfaction_ranking:
  assumes "2 \<le> length (List.map_filter parse_uuid user_ids)"
  shows
    "calculate_group_satisfaction F d m (List.map_filter parse_uuid user_ids) =
       max 0 (min 1
         (fadd F
            (fmul F (flit F 0.6)
               (fmean F (individual_satisfactions F d m (List.map_filter parse_uuid user_ids))))
            (fmul F (flit F 0.4)
               (Min (set (individual_satisfactions F d m
                            (List.map_filter parse_uuid user_ids))))))) \<and>
     get_group_recommendations F parse_uuid d user_ids limit min_satisfaction =
       take limit
         (sorted_reverse
            (\<lambda>c. calculate_group_satisfaction F d c (List.map_filter parse_uuid user_ids))
            (filter
               (\<lambda>c. calculate_group_satisfaction F d c (List.map_filter parse_uuid user_ids)
                      \<ge> min_satisfaction)
               (find_consensus_candidates d (List.map_filter parse_uuid user_ids)
                  (all_rated_movies d (List.map_filter parse_uuid user_ids))))) \<and>
     sorted_wrt
       (\<lambda>a b. calculate_group_satisfaction F d b (List.map_filter parse_uuid user_ids)
                \<le> calculate_group_satisfaction F d a (List.map_filter parse_uuid user_ids))
       (get_group_recommendations F parse_uuid d user_ids limit min_satisfaction) \<and>
     (\<forall>c \<in> set (get_group_recommendations F parse_uuid d user_ids limit min_satisfaction).
        c \<in> set (find_consensus_candidates d (List.map_filter parse_uuid user_ids)
                   (all_rated_movies d (List.map_filter parse_uuid user_ids))) \<and>
        calculate_group_satisfaction F d c (List.map_filter parse_uuid user_ids)
          \<ge> min_satisfaction) \<and>
     (length (filter
               (\<lambda>c. calculate_group_satisfaction F d c (List.map_filter parse_uuid user_ids)
                      \<ge> min_satisfaction)
               (find_consensus_candidates d (List.map_filter parse_uuid user_ids)
                  (all_rated_movies d (List.map_filter parse_uuid user_ids)))) \<le> limit \<longrightarrow>
      set (get_group_recommendations F parse_uuid d user_ids limit min_satisfaction) =
        {c \<in> set (find_consensus_candidates d (List.map_filter parse_uuid user_ids)
                    (all_rated_movies d (List.map_filter parse_uuid user_ids))).
           calculate_group_satisfaction F d c (List.map_filter parse_uuid user_ids)
             \<ge> min_satisfaction})"
proof -
  let ?us = "List.map_filter parse_uuid user_ids"
  let ?sat = "\<lambda>c. calculate_group_satisfaction F d c ?us"
  let ?cands = "find_consensus_candidates d ?us (all_rated_movies d ?us)"
  let ?good = "filter (\<lambda>c. ?sat c \<ge> min_satisfaction) ?cands"
  let ?out = "get_group_recommendations F parse_uuid d user_ids limit min_satisfaction"
  have ne: "?us \<noteq> []" using assms by auto
  have out: "?out = take limit (sorted_reverse ?sat ?good)"
    using assms by (rule group_recommendations_ranked)
  have sat: "?sat m = max 0 (min 1
         (fadd F (fmul F (flit F 0.6) (fmean F (individual_satisfactions F d m ?us)))
            (fmul F (flit F 0.4) (Min (set (individual_satisfactions F d m ?us))))))"
    using ne by (simp add: calculate_group_satisfaction_def individual_satisfactions_def Let_def)
  have srt: "sorted_wrt (\<lambda>a b. ?sat b \<le> ?sat a) ?out"
    unfolding out by (rule sorted_wrt_take) (rule sorted_sorted_reverse)
  have sub: "set ?out \<subseteq> set ?good"
    unfolding out using set_take_subset [of limit "sorted_reverse ?sat ?good"]
    by (simp add: set_sorted_reverse)
  have mem: "\<forall>c \<in> set ?out. c \<in> set ?cands \<and> ?sat c \<ge> min_satisfaction"
    using sub by auto
  have all: "length ?good \<le> limit \<longrightarrow> set ?out = {c \<in> set ?cands. ?sat c \<ge> min_satisfaction}"
  proof
    assume "length ?good \<le> limit"
    then have "take limit (sorted_reverse ?sat ?good) = sorted_reverse ?sat ?good"
      by (simp add: length_sorted_reverse)
    then show "set ?out = {c \<in> set ?cands. ?sat c \<ge> min_satisfaction}"
      unfolding out by (simp add: set_sorted_reverse)
  qed
  from sat out srt mem all show ?thesis by blast
qed

theorem group_satisfaction_ranking_witness:
  "2 \<le> length (List.map_filter example_parse_uuid [''u1'', ''u2'']) \<and>
   calculate_group_satisfaction ieee_double example_db example_comedy [1, 2] =
     flit ieee_double 0.8 \<and>
   get_group_recommendations ieee_double example_parse_uuid example_db [''u1'', ''u2''] 10
       (flit ieee_double 0.6) =
     [example_comedy, example_horror] \<and>
   length (filter (\<lambda>c. calculate_group_satisfaction ieee_double example_db c [1, 2]
                         \<ge> flit ieee_double 0.6)
             (find_consensus_candidates example_db [1, 2]
                (all_rated_movies example_db [1, 2]))) \<le> 10"
  using group_satisfaction_ranking
          [of example_parse_uuid "[''u1'', ''u2'']" ieee_double example_db example_comedy 10
              "flit ieee_double 0.6"]
  unfolding example_parse_pair double_literals
  by (simp add: example_candidates example_satisfaction sorted_reverse_def)

text \<open>
  With a limit of 1 the horror film of the sample catalogue is a candidate whose group
  satisfaction, the float 0.7, reaches the threshold, the float 0.6, and it is not
  returned.
\<close>

theorem group_limit_counterexample:
  "example_horror \<in> set (find_consensus_candidates example_db [1, 2]
                            (all_rated_movies example_db [1, 2])) \<and>
   calculate_group_satisfaction ieee_double example_db example_horror [1, 2]
     \<ge> flit ieee_double 0.6 \<and>
   List.map_filter example_parse_uuid [''u1'', ''u2''] = [1, 2] \<and>
   example_horror \<notin>
     set (get_group_recommendations ieee_double example_parse_uuid example_db
            [''u1'', ''u2''] 1 (flit ieee_double 0.6))"
proof (intro conjI)
  show "example_horror \<in> set (find_consensus_candidates example_db [1, 2]
                                 (all_rated_movies example_db [1, 2]))"
    by (simp add: example_candidates)
  show "calculate_group_satisfaction ieee_double example_db example_horror [1, 2]
          \<ge> flit ieee_double 0.6"
    unfolding double_literals by (simp add: example_satisfaction)
  show "List.map_filter example_parse_uuid [''u1'', ''u2''] = [1, 2]"
    by (rule example_parse_pair)
  show "example_horror \<notin>
     set (get_group_recommendations ieee_double example_parse_uuid example_db
            [''u1'', ''u2''] 1 (flit ieee_double 0.6))"
    using example_group_output [OF example_parse_pair, of 1]
    by (simp add: example_comedy_def example_horror_def)
qed

subsection \<open>Group consensus scorer: size guard\<close>

text \<open>
  Claim C7, as the code has it. When fewer than two of the supplied id strings are valid
  ids (in particular when a single id is supplied) the result is the empty list; no
  error is raised. With two or more valid ids, equal or not, the candidates are ranked,
  and the result is non-empty exactly when the limit is positive and the satisfaction
  that the interpreter's arithmetic \<open>F\<close> computes for some candidate reaches the
  threshold.
\<close>

theorem group_size_guard:
  "(length user_ids < 2 \<longrightarrow>
      get_group_recommendations F parse_uuid d user_ids limit min_satisfaction = []) \<and>
   (length (List.map_filter parse_uuid user_ids) < 2 \<longrightarrow>
      get_group_recommendations F parse_uuid d user_ids limit min_satisfaction = []) \<and>
   (2 \<le> length (List.map_filter parse_uuid user_ids) \<longrightarrow>
      (get_group_recommendations F parse_uuid d user_ids limit min_satisfaction \<noteq> [] \<longleftrightarrow>
         0 < limit \<and>
         (\<exists>c \<in> set (find_consensus_candidates d (List.map_filter parse_uuid user_ids)
                        (all_rated_movies d (List.map_filter parse_uuid user_ids))).
            calculate_group_satisfaction F d c (List.map_filter parse_uuid user_ids)
              \<ge> min_satisfaction)))"
proof (intro conjI impI)
  assume "length user_ids < 2"
  then show "get_group_recommendations F parse_uuid d user_ids limit min_satisfaction = []"
    by (simp add: get_group_recommendations_def)
next
  assume "length (List.map_filter parse_uuid user_ids) < 2"
  then show "get_group_recommendations F parse_uuid d user_ids limit min_satisfaction = []"
    by (simp add: get_group_recommendations_def Let_def)
next
  let ?us = "List.map_filter parse_uuid user_ids"
  let ?sat = "\<lambda>c. calculate_group_satisfaction F d c ?us"
  let ?good = "filter (\<lambda>c. ?sat c \<ge> min_satisfaction)
                 (find_consensus_candidates d ?us (all_rated_movies d ?us))"
  assume "2 \<le> length ?us"
  then have out: "get_group_recommendations F parse_uuid d user_ids limit min_satisfaction =
        take limit (sorted_reverse ?sat ?good)"
    by (rule group_recommendations_ranked)
  have "take limit (sorted_reverse ?sat ?good) \<noteq> [] \<longleftrightarrow> 0 < limit \<and> ?good \<noteq> []"
    using length_sorted_reverse [of ?sat ?good] by (cases limit) auto
  then show "get_group_recommendations F parse_uuid d user_ids limit min_satisfaction \<noteq> [] \<longleftrightarrow>
         0 < limit \<and>
         (\<exists>c \<in> set (find_consensus_candidates d ?us (all_rated_movies d ?us)).
            ?sat c \<ge> min_satisfaction)"
    unfolding out by (simp add: filter_empty_conv)
qed

lemma example_parse_single: "List.map_filter example_parse_uuid [''u1'', ''zz''] = [1]"
  by (simp add: List.map_filter_def example_parse_uuid_def)

theorem group_size_guard_witness:
  "length [''u1''] < 2 \<and>
   get_group_recommendations ieee_double example_parse_uuid example_db [''u1''] 10
       (flit ieee_double 0.6) = [] \<and>
   length (List.map_filter example_parse_uuid [''u1'', ''zz'']) < 2 \<and>
   get_group_recommendations ieee_double example_parse_uuid example_db [''u1'', ''zz''] 10
       (flit ieee_double 0.6) = [] \<and>
   2 \<le> length (List.map_filter example_parse_uuid [''u1'', ''u2'']) \<and>
   get_group_recommendations ieee_double example_parse_uuid example_db [''u1'', ''u2''] 10
       (flit ieee_double 0.6) \<noteq> []"
  using group_size_guard
          [of "[''u1'']" ieee_double example_parse_uuid example_db 10 "flit ieee_double 0.6"]
    group_size_guard
          [of "[''u1'', ''zz'']" ieee_double example_parse_uuid example_db 10
              "flit ieee_double 0.6"]
    group_size_guard
          [of "[''u1'', ''u2'']" ieee_double example_parse_uuid example_db 10
              "flit ieee_double 0.6"]
  unfolding example_parse_pair example_parse_single double_literals
  by (simp add: example_candidates example_satisfaction)

text \<open>
  The id list ["u1", "u1"] holds one distinct valid id, yet the call returns both films of
  the sample catalogue.
\<close>

theorem repeated_id_group_counterexample:
  "card (set (List.map_filter example_parse_uuid [''u1'', ''u1''])) = 1 \<and>
   get_group_recommendations ieee_double example_parse_uuid example_db [''u1'', ''u1''] 10
       (flit ieee_double 0.6) =
     [example_comedy, example_horror]"
  using example_group_output [OF example_parse_repeated, of 10]
  unfolding example_parse_repeated by simp

subsection \<open>Group consensus scorer: a score that rounding moves below the threshold\<close>

lemma example_parse_triple:
  "List.map_filter example_parse_uuid [''u1'', ''u2'', ''u3''] = [1, 2, 3]"
  by (simp add: List.map_filter_def example_parse_uuid_def)

lemma rounding_rating_dicts:
  "user_rating_dict rounding_db 1 = []"
  "user_rating_dict rounding_db 2 = [(20, 2), (21, 3)]"
  "user_rating_dict rounding_db 3 = [(20, 3), (21, 4)]"
  by (simp_all add: user_rating_dict_def rounding_db_def)

lemma rounding_candidates:
  "find_consensus_candidates rounding_db [1, 2, 3] (all_rated_movies rounding_db [1, 2, 3]) =
     [rounding_film]"
  by code_simp

lemma rounding_prediction:
  "predict_user_satisfaction F rounding_db rounding_film [(20, r), (21, s)] =
     max 0 (min 1
       (fsub F
          (fadd F
             (fdiv F
                (fadd F 0 (max 0 (fdiv F (fsub F (fdiv F (fadd F (fadd F 0 r) s) 2) 1) 4)))
                1)
             (flit F 0.1))
          0))"
  by (simp add: predict_user_satisfaction_def user_genre_prefs_def rounding_db_def
        rounding_film_def Let_def)

lemma rounding_satisfactions:
  "individual_satisfactions F rounding_db rounding_film [1, 2, 3] =
     [fdiv F 8.5 10,
      predict_user_satisfaction F rounding_db rounding_film [(20, 2), (21, 3)],
      predict_user_satisfaction F rounding_db rounding_film [(20, 3), (21, 4)]]"
  unfolding individual_satisfactions_def list.map rounding_rating_dicts
  by (simp add: predict_user_satisfaction_def or_default_def rounding_film_def)

lemma rounding_satisfactions_double:
  "individual_satisfactions ieee_double rounding_db rounding_film [1, 2, 3] =
     [flit ieee_double 0.85, flit ieee_double 0.475, flit ieee_double 0.725]"
  unfolding rounding_satisfactions rounding_prediction
  by (simp add: ieee_double_def round_double_unfold)

lemma rounding_satisfactions_exact:
  "individual_satisfactions exact_arithmetic rounding_db rounding_film [1, 2, 3] =
     [0.85, 0.475, 0.725]"
  unfolding rounding_satisfactions rounding_prediction
  by (simp add: exact_arithmetic_def)

lemma rounding_score_exact:
  "calculate_group_satisfaction exact_arithmetic rounding_db rounding_film [1, 2, 3] = 0.6"
  unfolding calculate_group_satisfaction_def rounding_satisfactions_exact Let_def
  by (simp add: exact_arithmetic_def)

lemma rounding_score_double:
  "calculate_group_satisfaction ieee_double rounding_db rounding_film [1, 2, 3] =
     5404319552844594 / 9007199254740992"
  unfolding calculate_group_satisfaction_def rounding_satisfactions_double Let_def
  by (simp add: ieee_double_def double_sum_def round_double_unfold)

text \<open>
  Film 12 of the rounding catalogue, for the group of users 1, 2 and 3 with the default
  threshold. The members' satisfactions are 0.85, 0.475 and 0.725. In exact arithmetic the
  group satisfaction is 0.6 and the film would be returned; the interpreter computes
  5404319552844594 / 2^53 (printed 0.5999999999999999), one unit in the last place below
  the float 0.6, and returns nothing.
\<close>

lemma rounding_decides_threshold:
  "get_group_recommendations exact_arithmetic example_parse_uuid rounding_db
       [''u1'', ''u2'', ''u3''] 10 0.6 = [rounding_film] \<and>
   calculate_group_satisfaction ieee_double rounding_db rounding_film [1, 2, 3]
     < flit ieee_double 0.6 \<and>
   get_group_recommendations ieee_double example_parse_uuid rounding_db
       [''u1'', ''u2'', ''u3''] 10 (flit ieee_double 0.6) = []"
proof (intro conjI)
  show "get_group_recommendations exact_arithmetic example_parse_uuid rounding_db
       [''u1'', ''u2'', ''u3''] 10 0.6 = [rounding_film]"
    using group_recommendations_ranked
            [of example_parse_uuid "[''u1'', ''u2'', ''u3'']" exact_arithmetic rounding_db 10
                "0.6"]
    unfolding example_parse_triple rounding_candidates
    by (simp add: rounding_score_exact sorted_reverse_def del: One_nat_def)
  show "calculate_group_satisfaction ieee_double rounding_db rounding_film [1, 2, 3]
     < flit ieee_double 0.6"
    unfolding double_literals rounding_score_double by simp
  show "get_group_recommendations ieee_double example_parse_uuid rounding_db
       [''u1'', ''u2'', ''u3''] 10 (flit ieee_double 0.6) = []"
    using group_recommendations_ranked
            [of example_parse_uuid "[''u1'', ''u2'', ''u3'']" ieee_double rounding_db 10
                "flit ieee_double 0.6"]
    unfolding example_parse_triple rounding_candidates double_literals
    by (simp add: rounding_score_double sorted_reverse_def del: One_nat_def)
qed

subsection \<open>Content scorer: accumulation and ranking by average\<close>










lemma find_mid: "find (\<lambda>m. mid m = k) ms = Some m \<Longrightarrow> mid m = k"
  by (induction ms) (auto split: if_splits)








lemma content_high_ratings:
  "high_ratings content_db 7 =
     [\<lparr>user_id = 7, movie_id = 1, rating_value = 5\<rparr>,
      \<lparr>user_id = 7, movie_id = 2, rating_value = 4\<rparr>] \<and>
   high_ratings content_db 8 = []"
  by code_simp

lemma content_example_candidates:
  "content_candidates (Some example_content_model) content_db 7 True =
     [(4, film 4, 49 / 50, 2), (3, film 3, 29 / 25, 2), (5, film 5, 4 / 5, 2)]"
  by code_simp


subsection \<open>Exclusion of rated movies\<close>

lemma mood_output_subset:
  "set (get_mood_recommendations polarity d u mood limit)
     \<subseteq> (\<Union>tg. set (mood_candidates d u tg))"
proof (cases "map_of mood_genre_mapping (lower mood)")
  case None
  then show ?thesis by (simp add: get_mood_recommendations_def)
next
  case (Some tg)
  let ?scored = "map (\<lambda>m. (m, calculate_mood_score polarity d m (lower mood)))
                   (mood_candidates d u tg)"
  let ?key = "\<lambda>x :: movie \<times> real. (snd x, or_default (popularity (fst x)) 0)"
  have "set (map fst (take limit (sorted_reverse ?key ?scored)))
          \<subseteq> fst ` set (sorted_reverse ?key ?scored)"
    using set_take_subset [of limit "sorted_reverse ?key ?scored"] by auto
  also have "\<dots> = set (mood_candidates d u tg)"
    by (simp add: set_sorted_reverse image_image)
  finally have "set (get_mood_recommendations polarity d u mood limit)
                  \<subseteq> set (mood_candidates d u tg)"
    by (simp add: get_mood_recommendations_def Some Let_def)
  then show ?thesis by blast
qed

lemma mood_excludes_rated:
  "m \<in> set (get_mood_recommendations polarity d u mood limit) \<Longrightarrow>
   mid m \<notin> user_rated_movies d u"
  using mood_output_subset [of polarity d u mood limit]
  by (auto simp add: mood_candidates_def)

lemma neighbour_movies_keys:
  "fst ` set (neighbour_movies rmm rated sim row recs)
     \<subseteq> fst ` set recs \<union> {k. \<exists>j. map_of rmm j = Some k \<and> j \<notin> rated}"
proof (induction rmm rated sim row recs rule: neighbour_movies.induct)
  case (1 rmm rated_movies similarity_score recommendations)
  then show ?case by simp
next
  case (2 rmm rated_movies similarity_score movie_idx r rest recommendations)
  let ?K = "{k. \<exists>j. map_of rmm j = Some k \<and> j \<notin> rated_movies}"
  let ?next = "(if r \<ge> 4.0 \<and> movie_idx \<notin> rated_movies then
          (case map_of rmm movie_idx of
             None \<Rightarrow> recommendations
           | Some m_id \<Rightarrow>
               if m_id = 0 then recommendations
               else
                 AList.update m_id
                   ((case map_of recommendations m_id of None \<Rightarrow> 0 | Some s \<Rightarrow> s)
                      + similarity_score * (r / 5.0))
                   recommendations)
        else recommendations)"
  have step: "fst ` set ?next \<subseteq> fst ` set recommendations \<union> ?K"
    by (auto simp add: dom_update split: option.splits)
  have "fst ` set (neighbour_movies rmm rated_movies similarity_score rest ?next)
          \<subseteq> fst ` set ?next \<union> ?K"
    by (rule "2.IH")
  then show ?case
    unfolding neighbour_movies.simps using step by blast
qed

lemma neighbour_loop_keys:
  "neighbour_loop model rated sims recs = Some out \<Longrightarrow>
   fst ` set out
     \<subseteq> fst ` set recs \<union> {k. \<exists>j. map_of (reverse_movie_map model) j = Some k \<and> j \<notin> rated}"
proof (induction model rated sims recs rule: neighbour_loop.induct)
  case (1 model rated_movies recommendations)
  then show ?case by auto
next
  case (2 model rated_movies similar_user_idx similarity_score rest recommendations)
  let ?K = "{k. \<exists>j. map_of (reverse_movie_map model) j = Some k \<and> j \<notin> rated_movies}"
  let ?next = "neighbour_movies (reverse_movie_map model) rated_movies similarity_score
             (enumerate 0 (user_movie_matrix model ! similar_user_idx)) recommendations"
  have inr: "\<not> similar_user_idx \<ge> length (user_movie_matrix model)"
    using "2.prems" by (auto split: if_splits)
  then have "neighbour_loop model rated_movies rest ?next = Some out"
    using "2.prems" by simp
  then have "fst ` set out \<subseteq> fst ` set ?next \<union> ?K"
    by (rule "2.IH" [OF inr])
  moreover have "fst ` set ?next \<subseteq> fst ` set recommendations \<union> ?K"
    by (rule neighbour_movies_keys)
  ultimately show ?case by blast
qed

lemma neighbour_recommendations_unrated:
  assumes "neighbour_recommendations model d user_idx limit = Some out" "m \<in> set out"
  shows "\<exists>j. map_of (reverse_movie_map model) j = Some (mid m) \<and>
             j \<notin> rated_columns (user_movie_matrix model ! user_idx)"
proof -
  let ?rated = "rated_columns (user_movie_matrix model ! user_idx)"
  let ?sims = "take 50 (find_similar_users model user_idx 50)"
  from assms(1) obtain recs where
    recs: "neighbour_loop model ?rated ?sims [] = Some recs" and
    out: "out = List.map_filter (\<lambda>x. find (\<lambda>m. mid m = fst x) (movies d))
                  (take limit (sorted_reverse snd recs))"
    by (auto simp add: neighbour_recommendations_def Let_def split: if_splits option.splits)
  from assms(2) obtain x where x: "x \<in> set (take limit (sorted_reverse snd recs))"
    and f: "find (\<lambda>m. mid m = fst x) (movies d) = Some m"
    unfolding out by (auto simp add: List.map_filter_def)
  have "x \<in> set recs"
    using x set_take_subset [of limit "sorted_reverse snd recs"]
    by (auto simp add: set_sorted_reverse)
  then have "fst x \<in> fst ` set recs" by simp
  then have "fst x \<in> {k. \<exists>j. map_of (reverse_movie_map model) j = Some k \<and> j \<notin> ?rated}"
    using neighbour_loop_keys [OF recs] by auto
  moreover have "mid m = fst x" using f by (rule find_mid)
  ultimately show ?thesis by simp
qed

text \<open>
  Claim C2, as the code has it. Mood recommendations never contain a movie the user has
  rated. When the user is in the collaborative index and the neighbour path completes,
  its result is returned whatever \<open>exclude_watched\<close> is, and every returned movie
  belongs to a column in which the user's row of the rating matrix has no rating; if no
  two columns stand for the same movie, no column of a returned movie is rated by the
  user.
\<close>

theorem rated_movies_excluded:
  "(\<forall>m \<in> set (get_mood_recommendations polarity d u mood limit).
      mid m \<notin> user_rated_movies d u) \<and>
   (map_of (user_index_map model) u = Some user_idx \<and>
    neighbour_recommendations model d user_idx limit = Some out \<longrightarrow>
      collaborative_get_recommendations (Some model) d u limit exclude_watched = out \<and>
      (\<forall>m \<in> set out.
         \<exists>j. map_of (reverse_movie_map model) j = Some (mid m) \<and>
             j \<notin> rated_columns (user_movie_matrix model ! user_idx)) \<and>
      ((\<forall>j j' k. map_of (reverse_movie_map model) j = Some k \<and>
                 map_of (reverse_movie_map model) j' = Some k \<longrightarrow> j = j') \<longrightarrow>
       (\<forall>m \<in> set out. \<forall>j. map_of (reverse_movie_map model) j = Some (mid m) \<longrightarrow>
          j \<notin> rated_columns (user_movie_matrix model ! user_idx))))"
proof (intro conjI impI ballI allI)
  fix m assume "m \<in> set (get_mood_recommendations polarity d u mood limit)"
  then show "mid m \<notin> user_rated_movies d u" by (rule mood_excludes_rated)
next
  assume a: "map_of (user_index_map model) u = Some user_idx \<and>
             neighbour_recommendations model d user_idx limit = Some out"
  then show "collaborative_get_recommendations (Some model) d u limit exclude_watched = out"
    by (simp add: collaborative_get_recommendations_def)
next
  fix m
  assume a: "map_of (user_index_map model) u = Some user_idx \<and>
             neighbour_recommendations model d user_idx limit = Some out"
    and m: "m \<in> set out"
  from a have n: "neighbour_recommendations model d user_idx limit = Some out" by simp
  show "\<exists>j. map_of (reverse_movie_map model) j = Some (mid m) \<and>
            j \<notin> rated_columns (user_movie_matrix model ! user_idx)"
    by (rule neighbour_recommendations_unrated [OF n m])
next
  fix m j
  assume a: "map_of (user_index_map model) u = Some user_idx \<and>
             neighbour_recommendations model d user_idx limit = Some out"
    and inj: "\<forall>j j' k. map_of (reverse_movie_map model) j = Some k \<and>
                 map_of (reverse_movie_map model) j' = Some k \<longrightarrow> j = j'"
    and m: "m \<in> set out"
    and j: "map_of (reverse_movie_map model) j = Some (mid m)"
  from a have n: "neighbour_recommendations model d user_idx limit = Some out" by simp
  obtain j' where j': "map_of (reverse_movie_map model) j' = Some (mid m)"
    and nr: "j' \<notin> rated_columns (user_movie_matrix model ! user_idx)"
    using neighbour_recommendations_unrated [OF n m] by blast
  have "j = j'" using inj j j' by blast
  then show "j \<notin> rated_columns (user_movie_matrix model ! user_idx)" using nr by simp
qed

lemma mid_film: "mid (film i) = i"
  by (simp add: film_def)

lemma collab_example_output:
  "neighbour_recommendations example_collab_model collab_db 0 10 = Some [film 2, film 3]"
  by code_simp

theorem rated_movies_excluded_witness:
  "1 \<in> user_rated_movies collab_db 7 \<and>
   film 1 \<notin> set (get_mood_recommendations positive_polarity collab_db 7 ''nostalgic'' 10) \<and>
   map_of (user_index_map example_collab_model) 7 = Some 0 \<and>
   neighbour_recommendations example_collab_model collab_db 0 10 = Some [film 2, film 3] \<and>
   collaborative_get_recommendations (Some example_collab_model) collab_db 7 10 False =
     [film 2, film 3] \<and>
   map_of (reverse_movie_map example_collab_model) 0 = Some 1 \<and>
   0 \<in> rated_columns (user_movie_matrix example_collab_model ! 0)"
proof -
  note t = rated_movies_excluded
             [of positive_polarity collab_db 7 "''nostalgic''" 10
                 example_collab_model 0 "[film 2, film 3]" False]
  have r: "1 \<in> user_rated_movies collab_db 7"
    by code_simp
  have i: "map_of (user_index_map example_collab_model) 7 = Some 0"
    by (simp add: example_collab_model_def)
  have c: "map_of (reverse_movie_map example_collab_model) 0 = Some 1 \<and>
           0 \<in> rated_columns (user_movie_matrix example_collab_model ! 0)"
    by code_simp
  have m: "film 1 \<notin> set (get_mood_recommendations positive_polarity collab_db 7 ''nostalgic'' 10)"
    using t r mid_film [of 1] by force
  have o: "collaborative_get_recommendations (Some example_collab_model) collab_db 7 10 False =
             [film 2, film 3]"
    using t i collab_example_output by blast
  from r m i collab_example_output o c show ?thesis by blast
qed

text \<open>
  User 8 has rated film 1 (with 3.0) and nothing at 4.0 or above, and is not in any
  collaborative index: both scorers fall back to the popular movies, and film 1 is
  among them.
\<close>

lemma content_db_popular:
  "get_popular_movies content_db 10 = [film 1, film 2, film 3, film 4, film 5]"
  by code_simp

theorem popular_fallback_counterexample:
  "1 \<in> user_rated_movies content_db 8 \<and>
   mid (film 1) = 1 \<and>
   film 1 \<in> set (content_get_recommendations (Some example_content_model) content_db 8 10 True) \<and>
   film 1 \<in> set (collaborative_get_recommendations None content_db 8 10 True)"
proof (intro conjI)
  show "1 \<in> user_rated_movies content_db 8"
    by code_simp
  show "mid (film 1) = 1" by (rule mid_film)
  show "film 1 \<in>
          set (content_get_recommendations (Some example_content_model) content_db 8 10 True)"
    by (simp add: content_get_recommendations_def content_high_ratings content_db_popular)
  show "film 1 \<in> set (collaborative_get_recommendations None content_db 8 10 True)"
    by (simp add: collaborative_get_recommendations_def content_db_popular)
qed

text \<open>
  The content scorer, apart from its fallback: the set it excludes is built at line 54 from
  the rows of the first query, which holds only the ratings of at least 4.0, under the
  comment ``movie IDs user has rated''. User 7 rated film 3 with 2.0, and film 3 is
  recommended to user 7.
\<close>

lemma low_rated_movie_recommended:
  "3 \<in> user_rated_movies content_db 7 \<and>
   content_get_recommendations (Some example_content_model) content_db 7 10 True =
     [film 3, film 4, film 5]"
  by code_simp

subsection \<open>Similarity matrices\<close>

lemma dot_commute: "dot x y = dot y x"
proof -
  have "sum_list (map2 (*) x y) = sum_list (map2 (*) y x)" for x y :: "real list"
  proof (induction x arbitrary: y)
    case Nil
    then show ?case by simp
  next
    case (Cons a x)
    then show ?case by (cases y) (simp_all add: mult.commute)
  qed
  then show ?thesis by (simp add: dot_def)
qed

lemma cosine_similarity_length: "length (cosine_similarity X) = length X"
  by (simp add: cosine_similarity_def)

lemma cosine_similarity_entry:
  "i < length X \<Longrightarrow> j < length X \<Longrightarrow>
   cosine_similarity X ! i ! j = dot (normalize_row (X ! i)) (normalize_row (X ! j))"
  by (simp add: cosine_similarity_def)

lemma cosine_similarity_symmetric:
  "i < length X \<Longrightarrow> j < length X \<Longrightarrow>
   cosine_similarity X ! i ! j = cosine_similarity X ! j ! i"
  by (simp add: cosine_similarity_entry dot_commute)

lemma cosine_similarity_row_length:
  "i < length X \<Longrightarrow> length (cosine_similarity X ! i) = length X"
  by (simp add: cosine_similarity_def)

lemma compute_similarity_matrix_entry:
  assumes "length numeric = length tfidf" "i < length tfidf" "j < length tfidf"
  shows "compute_similarity_matrix tfidf numeric ! i ! j =
           0.7 * cosine_similarity tfidf ! i ! j + 0.3 * cosine_similarity numeric ! i ! j"
  using assms
  by (simp add: compute_similarity_matrix_def cosine_similarity_length
      cosine_similarity_row_length)

text \<open>
  Claim C8. The content matrix built from the text block and the numeric block (one row
  per movie in each) is symmetric, its entry being 0.7 times the text cosine plus 0.3
  times the numeric cosine; the user-user cosine matrix of the collaborative scorer is
  symmetric. Floating-point numbers are taken as real numbers.
\<close>

theorem similarity_matrices_symmetric:
  "(length numeric = length tfidf \<and> i < length tfidf \<and> j < length tfidf \<longrightarrow>
      compute_similarity_matrix tfidf numeric ! i ! j =
        compute_similarity_matrix tfidf numeric ! j ! i \<and>
      compute_similarity_matrix tfidf numeric ! i ! j =
        0.7 * cosine_similarity tfidf ! i ! j + 0.3 * cosine_similarity numeric ! i ! j) \<and>
   (i < length ratings_matrix \<and> j < length ratings_matrix \<longrightarrow>
      compute_user_similarity_matrix ratings_matrix ! i ! j =
        compute_user_similarity_matrix ratings_matrix ! j ! i)"
proof (intro conjI impI)
  assume a: "length numeric = length tfidf \<and> i < length tfidf \<and> j < length tfidf"
  then have n: "i < length numeric" "j < length numeric" by simp_all
  from a show "compute_similarity_matrix tfidf numeric ! i ! j =
        0.7 * cosine_similarity tfidf ! i ! j + 0.3 * cosine_similarity numeric ! i ! j"
    by (simp add: compute_similarity_matrix_entry)
  from a n show "compute_similarity_matrix tfidf numeric ! i ! j =
        compute_similarity_matrix tfidf numeric ! j ! i"
    using cosine_similarity_symmetric [of i tfidf j]
      cosine_similarity_symmetric [of i numeric j]
    by (simp add: compute_similarity_matrix_entry)
next
  assume "i < length ratings_matrix \<and> j < length ratings_matrix"
  then show "compute_user_similarity_matrix ratings_matrix ! i ! j =
        compute_user_similarity_matrix ratings_matrix ! j ! i"
    by (simp add: compute_user_similarity_matrix_def cosine_similarity_symmetric)
qed

theorem similarity_matrices_symmetric_witness:
  "length [[3, 4], [0, 2 :: real]] = length [[1, 0], [1, 1 :: real]] \<and>
   (0 :: nat) < length [[1, 0], [1, 1 :: real]] \<and> (1 :: nat) < length [[1, 0], [1, 1 :: real]] \<and>
   compute_similarity_matrix [[1, 0], [1, 1]] [[3, 4], [0, 2]] ! 0 ! 1 =
     compute_similarity_matrix [[1, 0], [1, 1]] [[3, 4], [0, 2]] ! 1 ! 0 \<and>
   (0 :: nat) < length [[5, 0, 3], [4, 0, 0 :: real]] \<and>
   (1 :: nat) < length [[5, 0, 3], [4, 0, 0 :: real]] \<and>
   compute_user_similarity_matrix [[5, 0, 3], [4, 0, 0]] ! 0 ! 1 =
     compute_user_similarity_matrix [[5, 0, 3], [4, 0, 0]] ! 1 ! 0"
  using similarity_matrices_symmetric
          [of "[[3, 4], [0, 2]]" "[[1, 0], [1, 1]]" 0 1 "[[5, 0, 3], [4, 0, 0]]"]
  by simp

end
